theory Spec2Isabelle
  imports Complex_Main "HOL-Library.AList" "HOL-Library.Log_Nat"
begin

section \<open>Numbers, errors and containers of the Python source\<close>

text \<open>
  The lab notebook of a MIES file is a numpy array of IEEE doubles. A cell is modelled by
  \<open>npfloat\<close>: the three special values the source tests for (\<open>np.isnan\<close>,
  \<open>np.isfinite\<close>) and finite numbers, each the exact real value of the double. The
  operations \<open>np_add\<close>, \<open>np_mul\<close>, \<open>np_div\<close> below give the exact result; \<open>dbl_add\<close>,
  \<open>dbl_mul\<close>, \<open>dbl_div\<close> round it to the nearest double, as the machine does. The sign
  of zero is not modelled.
\<close>

datatype npfloat = NaN | PInf | NInf | Num real

datatype error =
    StopIteration | IndexError | KeyError | ValueError | OverflowError
  | TypeError | AttributeError

fun isnan :: "npfloat \<Rightarrow> bool" where
  "isnan NaN = True"
| "isnan _ = False"

fun isfinite :: "npfloat \<Rightarrow> bool" where
  "isfinite (Num _) = True"
| "isfinite _ = False"

text \<open>Python's \<open>int(x)\<close> on a float: truncation towards zero; it raises on the special values.\<close>

definition trunc :: "real \<Rightarrow> int" where
  "trunc r = (if 0 \<le> r then \<lfloor>r\<rfloor> else \<lceil>r\<rceil>)"

fun py_int :: "npfloat \<Rightarrow> error + int" where
  "py_int (Num r) = Inr (trunc r)"
| "py_int NaN = Inl ValueError"
| "py_int PInf = Inl OverflowError"
| "py_int NInf = Inl OverflowError"

text \<open>numpy arithmetic on doubles: no exception is raised, special values propagate.\<close>

fun np_neg :: "npfloat \<Rightarrow> npfloat" where
  "np_neg NaN = NaN"
| "np_neg PInf = NInf"
| "np_neg NInf = PInf"
| "np_neg (Num a) = Num (- a)"

fun np_add :: "npfloat \<Rightarrow> npfloat \<Rightarrow> npfloat" where
  "np_add NaN _ = NaN"
| "np_add _ NaN = NaN"
| "np_add PInf NInf = NaN"
| "np_add NInf PInf = NaN"
| "np_add PInf _ = PInf"
| "np_add _ PInf = PInf"
| "np_add NInf _ = NInf"
| "np_add _ NInf = NInf"
| "np_add (Num a) (Num b) = Num (a + b)"

definition np_sub :: "npfloat \<Rightarrow> npfloat \<Rightarrow> npfloat" where
  "np_sub a b = np_add a (np_neg b)"

definition signed_inf :: "bool \<Rightarrow> npfloat" where
  "signed_inf positive = (if positive then PInf else NInf)"

fun np_mul :: "npfloat \<Rightarrow> npfloat \<Rightarrow> npfloat" where
  "np_mul NaN _ = NaN"
| "np_mul _ NaN = NaN"
| "np_mul (Num a) (Num b) = Num (a * b)"
| "np_mul (Num a) PInf = (if a = 0 then NaN else signed_inf (0 < a))"
| "np_mul (Num a) NInf = (if a = 0 then NaN else signed_inf (a < 0))"
| "np_mul PInf (Num b) = (if b = 0 then NaN else signed_inf (0 < b))"
| "np_mul NInf (Num b) = (if b = 0 then NaN else signed_inf (b < 0))"
| "np_mul PInf PInf = PInf"
| "np_mul NInf NInf = PInf"
| "np_mul PInf NInf = NInf"
| "np_mul NInf PInf = NInf"

fun np_div :: "npfloat \<Rightarrow> npfloat \<Rightarrow> npfloat" where
  "np_div NaN _ = NaN"
| "np_div _ NaN = NaN"
| "np_div (Num a) (Num b) =
     (if b = 0 then (if a = 0 then NaN else signed_inf (0 < a)) else Num (a / b))"
| "np_div (Num a) PInf = Num 0"
| "np_div (Num a) NInf = Num 0"
| "np_div PInf (Num b) = signed_inf (0 \<le> b)"
| "np_div NInf (Num b) = signed_inf (b < 0)"
| "np_div PInf PInf = NaN"
| "np_div PInf NInf = NaN"
| "np_div NInf PInf = NaN"
| "np_div NInf NInf = NaN"

text \<open>\<open>x > 0\<close> and \<open>x == y\<close> on doubles: every comparison with NaN is false.\<close>

fun np_gt0 :: "npfloat \<Rightarrow> bool" where
  "np_gt0 (Num a) = (0 < a)"
| "np_gt0 PInf = True"
| "np_gt0 _ = False"

fun np_eq :: "npfloat \<Rightarrow> real \<Rightarrow> bool" where
  "np_eq (Num a) b = (a = b)"
| "np_eq _ _ = False"

subsection \<open>Rounding to IEEE 754 binary64\<close>

text \<open>
  \<open>binade x\<close> is the exponent \<open>e\<close> with \<open>2^e \<le> x < 2^(e+1)\<close> of a positive real, computed
  from the bit length of an integer.
\<close>

definition binade :: "real \<Rightarrow> int" where
  "binade x = (if 1 \<le> x then bitlen \<lfloor>x\<rfloor> - 1 else - bitlen (\<lceil>1 / x\<rceil> - 1))"

definition pow2 :: "int \<Rightarrow> real" where
  "pow2 k = (if 0 \<le> k then 2 ^ nat k else 1 / 2 ^ nat (- k))"

definition round_half_even :: "real \<Rightarrow> int" where
  "round_half_even r =
    (let f = \<lfloor>r\<rfloor>; d = r - of_int f in
     if d < 1 / 2 then f else if 1 / 2 < d then f + 1 else if even f then f else f + 1)"

text \<open>
  The double nearest to a real, ties to the even significand: a significand of 53 bits
  at the exponent of the binade, the exponent not below that of the smallest normal
  number (so that small values round on the grid of the subnormals, \<open>2^-1074\<close>), and
  infinity when the rounded value reaches \<open>2^1024\<close>.
\<close>

definition double :: "real \<Rightarrow> npfloat" where
  "double x =
    (if x = 0 then Num 0
     else (let q = max (binade \<bar>x\<bar>) (- 1022) - 52;
               v = of_int (round_half_even (x / pow2 q)) * pow2 q
           in if 1024 \<le> binade \<bar>v\<bar> then signed_inf (0 < x) else Num v))"

definition np_round :: "npfloat \<Rightarrow> npfloat" where
  "np_round a = (case a of Num r \<Rightarrow> double r | _ \<Rightarrow> a)"

text \<open>The operations of the machine on doubles: the exact result, rounded.\<close>

definition dbl_add :: "npfloat \<Rightarrow> npfloat \<Rightarrow> npfloat" where
  "dbl_add a b = np_round (np_add a b)"

definition dbl_sub :: "npfloat \<Rightarrow> npfloat \<Rightarrow> npfloat" where
  "dbl_sub a b = np_round (np_sub a b)"

definition dbl_mul :: "npfloat \<Rightarrow> npfloat \<Rightarrow> npfloat" where
  "dbl_mul a b = np_round (np_mul a b)"

definition dbl_div :: "npfloat \<Rightarrow> npfloat \<Rightarrow> npfloat" where
  "dbl_div a b = np_round (np_div a b)"

text \<open>
  A Python dict built from a list of pairs, as \<open>OrderedDict([(k, i) for ...])\<close>: the pairs
  are kept, and a lookup finds the last pair with the key (a later pair overwrites an
  earlier one). \<open>d[k]\<close> raises KeyError on a missing key, \<open>d.get(k, None)\<close> does not.
\<close>

type_synonym ('k, 'v) pydict = "('k \<times> 'v) list"

definition dict_get :: "('k, 'v) pydict \<Rightarrow> 'k \<Rightarrow> 'v option" where
  "dict_get d k = map_of (rev d) k"

definition dict_item :: "('k, 'v) pydict \<Rightarrow> 'k \<Rightarrow> error + 'v" where
  "dict_item d k = (case dict_get d k of None \<Rightarrow> Inl KeyError | Some v \<Rightarrow> Inr v)"

section \<open>Dates\<close>

text \<open>
  Python's naive \<open>datetime\<close>, as the number of microseconds since 0001-01-01T00:00:00 of
  the proleptic Gregorian calendar, and \<open>timedelta\<close>, as a number of microseconds. The
  day number of a date follows \<open>_ymd2ord\<close> of the standard library.
\<close>

type_synonym datetime = int
type_synonym timedelta = int

definition is_leap :: "int \<Rightarrow> bool" where
  "is_leap y = (y mod 4 = 0 \<and> (if y mod 100 = 0 then y mod 400 = 0 else True))"

definition days_before_year :: "int \<Rightarrow> int" where
  "days_before_year y = (y - 1) * 365 + (y - 1) div 4 - (y - 1) div 100 + (y - 1) div 400"

definition days_before_month :: "int \<Rightarrow> int \<Rightarrow> int" where
  "days_before_month y m =
     [0, 31, 59, 90, 120, 151, 181, 212, 243, 273, 304, 334] ! nat (m - 1)
     + (if 2 < m \<and> is_leap y then 1 else 0)"

definition ymd2ord :: "int \<Rightarrow> int \<Rightarrow> int \<Rightarrow> int" where
  "ymd2ord y m d = days_before_year y + days_before_month y m + d"

text \<open>\<open>datetime(y, m, d)\<close>, for a valid date (the source passes two constants).\<close>

definition datetime_ymd :: "int \<Rightarrow> int \<Rightarrow> int \<Rightarrow> datetime" where
  "datetime_ymd y m d = (ymd2ord y m d - 1) * 86400000000"

definition datetime_min :: datetime where
  "datetime_min = datetime_ymd 1 1 1"

definition datetime_max :: datetime where
  "datetime_max = datetime_ymd 10000 1 1 - 1"

definition round_half_away :: "real \<Rightarrow> int" where
  "round_half_away x = (if 0 \<le> x then \<lfloor>x + 1 / 2\<rfloor> else \<lceil>x - 1 / 2\<rceil>)"

text \<open>
  The microseconds of a timestamp: whole seconds by truncation, the fraction rounded
  to a microsecond, half away from zero.
\<close>

definition timestamp_micros :: "real \<Rightarrow> int" where
  "timestamp_micros r =
     trunc r * 1000000 + round_half_away ((r - of_int (trunc r)) * 1000000)"

text \<open>
  \<open>datetime.utcfromtimestamp\<close>: no time zone is involved; a timestamp that is not a
  number, or whose date falls outside the years 1 to 9999, is a ValueError.
\<close>

definition utcfromtimestamp :: "npfloat \<Rightarrow> error + datetime" where
  "utcfromtimestamp t =
    (case t of
       Num r \<Rightarrow>
         (let d = datetime_ymd 1970 1 1 + timestamp_micros r in
          if datetime_min \<le> d \<and> d \<le> datetime_max then Inr d else Inl ValueError)
     | _ \<Rightarrow> Inl ValueError)"

text \<open>\<open>datetime - timedelta\<close>: OverflowError when the result leaves the range.\<close>

definition datetime_minus :: "datetime \<Rightarrow> timedelta \<Rightarrow> error + datetime" where
  "datetime_minus d td =
    (if datetime_min \<le> d - td \<and> d - td \<le> datetime_max then Inr (d - td)
     else Inl OverflowError)"

definition total_seconds :: "timedelta \<Rightarrow> real" where
  "total_seconds td = of_int td / 1000000"

text \<open>\<open>MiesNwb.igorpro_date\<close>\<close>

definition igorpro_date :: "npfloat \<Rightarrow> error + datetime" where
  "igorpro_date ts =
    (let dt = datetime_ymd 1970 1 1 - datetime_ymd 1904 1 1 in
     case utcfromtimestamp ts of Inl e \<Rightarrow> Inl e | Inr d \<Rightarrow> datetime_minus d dt)"

section \<open>The lab notebook: \<open>MiesNwb.notebook\<close>\<close>

text \<open>
  One row of the notebook table \<open>nb[i]\<close> is a matrix fields \<times> channels; the table is the
  list of its rows. Indexing outside a row raises IndexError.
\<close>

type_synonym nbrec = "npfloat list list"

definition item1 :: "'a list \<Rightarrow> nat \<Rightarrow> error + 'a" where
  "item1 xs i = (if i < length xs then Inr (xs ! i) else Inl IndexError)"

definition item2 :: "nbrec \<Rightarrow> nat \<Rightarrow> nat \<Rightarrow> error + npfloat" where
  "item2 r f c = (case item1 r f of Inl e \<Rightarrow> Inl e | Inr row \<Rightarrow> item1 row c)"

text \<open>\<open>mask = ~np.isnan(rec2); rec[mask] = rec2[mask]\<close>\<close>

definition overlay_cell :: "npfloat \<Rightarrow> npfloat \<Rightarrow> npfloat" where
  "overlay_cell old new = (if isnan new then old else new)"

definition overlay :: "nbrec \<Rightarrow> nbrec \<Rightarrow> nbrec" where
  "overlay r r2 = map2 (map2 overlay_cell) r r2"

definition nb_fields :: "string list \<Rightarrow> (string, nat) pydict" where
  "nb_fields nb_keys = zip nb_keys [0..<length nb_keys]"

datatype row_kind = TPRecord | SweepRecord | Ignored

text \<open>
  The first half of the loop body: the flags \<open>is_tp_record\<close> and \<open>is_sweep_record\<close>,
  and the position of the row iterator \<open>nb_iter\<close> afterwards. The loop has taken row
  \<open>i\<close>, so the iterator stands at \<open>i + 1\<close>; the legacy branch advances it once more when it
  finds a test-pulse pair.
\<close>

definition classify :: "string list \<Rightarrow> nbrec list \<Rightarrow> nat \<Rightarrow> error + (row_kind \<times> nat)" where
  "classify nb_keys nb i =
    (let rec = nb ! i in
     case item2 rec 0 0 of Inl e \<Rightarrow> Inl e | Inr sweep_num \<Rightarrow>
     let legacy =
       (if i + 1 < length nb then
          (case dict_item (nb_fields nb_keys) ''TP Peak Resistance'' of Inl e \<Rightarrow> Inl e
           | Inr pk \<Rightarrow>
           case item1 rec pk of Inl e \<Rightarrow> Inl e | Inr tp_peak \<Rightarrow>
           if list_ex isfinite tp_peak then
             (case dict_item (nb_fields nb_keys) ''TP Pulse Duration'' of Inl e \<Rightarrow> Inl e
              | Inr pd \<Rightarrow>
              case item1 (nb ! (i + 1)) pd of Inl e \<Rightarrow> Inl e | Inr tp_dur \<Rightarrow>
              if list_ex isfinite tp_dur then Inr (TPRecord, i + 2)
              else Inr (if isfinite sweep_num then SweepRecord else Ignored, i + 1))
           else Inr (if isfinite sweep_num then SweepRecord else Ignored, i + 1))
        else Inr (Ignored, i + 1))
     in
     case dict_get (nb_fields nb_keys) ''EntrySourceType'' of
       None \<Rightarrow> legacy
     | Some est \<Rightarrow>
        (case item2 rec est 0 of Inl e \<Rightarrow> Inl e | Inr src \<Rightarrow>
         if \<not> isnan src then
           Inr (if np_eq src 0 then SweepRecord else TPRecord, i + 1)
         else legacy))"

text \<open>
  The state of the scan: \<open>sweep_entries\<close> (an OrderedDict keyed by the sweep number, modelled
  as an association list in insertion order) and \<open>tp_entries\<close>.
\<close>

record scan_state =
  sweep_entries :: "(int \<times> nbrec) list"
  tp_entries :: "nbrec list"

text \<open>
  The second half of the loop body. \<open>p\<close> is the position of the iterator; \<open>nb_iter.next()\<close>
  raises StopIteration when the iterator is exhausted, and the exception leaves the loop
  and the method.
\<close>

definition process ::
  "nbrec list \<Rightarrow> nat \<Rightarrow> row_kind \<Rightarrow> nat \<Rightarrow> scan_state \<Rightarrow> error + (nat \<times> scan_state)" where
  "process nb i kind p st =
    (case kind of
       TPRecord \<Rightarrow>
         if length nb \<le> p then Inl StopIteration
         else (case item1 nb (i + 1) of Inl e \<Rightarrow> Inl e | Inr rec2 \<Rightarrow>
               Inr (p + 1, st\<lparr>tp_entries := tp_entries st @ [overlay (nb ! i) rec2]\<rparr>))
     | SweepRecord \<Rightarrow>
         (case item2 (nb ! i) 0 0 of Inl e \<Rightarrow> Inl e | Inr x \<Rightarrow>
          case py_int x of Inl e \<Rightarrow> Inl e | Inr sweep_num \<Rightarrow>
          (case map_of (sweep_entries st) sweep_num of
             None \<Rightarrow>
               Inr (p, st\<lparr>sweep_entries := AList.update sweep_num (nb ! i) (sweep_entries st)\<rparr>)
           | Some entry \<Rightarrow>
               Inr (p, st\<lparr>sweep_entries :=
                           AList.update sweep_num (overlay entry (nb ! i)) (sweep_entries st)\<rparr>)))
     | Ignored \<Rightarrow> Inr (p, st))"

definition step ::
  "string list \<Rightarrow> nbrec list \<Rightarrow> nat \<Rightarrow> scan_state \<Rightarrow> error + (nat \<times> scan_state)" where
  "step nb_keys nb i st =
    (case classify nb_keys nb i of Inl e \<Rightarrow> Inl e
     | Inr (kind, p) \<Rightarrow> process nb i kind p st)"

text \<open>\<open>for i in nb_iter: ...\<close>, with the iterator standing at \<open>p\<close>.\<close>

function scan :: "string list \<Rightarrow> nbrec list \<Rightarrow> nat \<Rightarrow> scan_state \<Rightarrow> error + scan_state" where
  "scan nb_keys nb p st =
    (if length nb \<le> p then Inr st
     else (case step nb_keys nb p st of Inl e \<Rightarrow> Inl e
           | Inr (p', st') \<Rightarrow> scan nb_keys nb p' st'))"
  by pat_completeness auto
termination
  by (relation "measure (\<lambda>(nb_keys, nb, p, st). length nb - p)")
     (auto simp: step_def classify_def process_def Let_def
           split: sum.splits option.splits if_splits row_kind.splits prod.splits)

text \<open>
  The rows the \<open>for\<close> loop takes from the iterator, in order, when it starts at \<open>p\<close>: a row
  consumed by \<open>nb_iter.next()\<close> inside the body is not among them.
\<close>

function visited :: "string list \<Rightarrow> nbrec list \<Rightarrow> nat \<Rightarrow> scan_state \<Rightarrow> nat list" where
  "visited nb_keys nb p st =
    (if length nb \<le> p then []
     else p # (case step nb_keys nb p st of Inl e \<Rightarrow> []
               | Inr (p', st') \<Rightarrow> visited nb_keys nb p' st'))"
  by pat_completeness auto
termination
  by (relation "measure (\<lambda>(nb_keys, nb, p, st). length nb - p)")
     (auto simp: step_def classify_def process_def Let_def
           split: sum.splits option.splits if_splits row_kind.splits prod.splits)

definition init_scan :: scan_state where
  "init_scan = \<lparr>sweep_entries = [], tp_entries = []\<rparr>"

subsection \<open>Propagation after the merge\<close>

fun map_err :: "('a \<Rightarrow> error + 'b) \<Rightarrow> 'a list \<Rightarrow> error + 'b list" where
  "map_err f [] = Inr []"
| "map_err f (x # xs) =
     (case f x of Inl e \<Rightarrow> Inl e
      | Inr y \<Rightarrow> (case map_err f xs of Inl e \<Rightarrow> Inl e | Inr ys \<Rightarrow> Inr (y # ys)))"

text \<open>\<open>mask = ~np.isnan(entry[:,8]); entry[mask] = entry[:,8:9][mask]\<close>\<close>

definition global_override :: "nbrec \<Rightarrow> error + nbrec" where
  "global_override entry =
    (if list_ex (\<lambda>row. length row \<le> 8) entry then Inl IndexError
     else Inr (map (\<lambda>row. if isnan (row ! 8) then row else map (\<lambda>_. row ! 8) row) entry))"

text \<open>\<open>entry[i] = entry[i, 0]\<close>: channel 0 is copied to all channels of one field.\<close>

definition broadcast_first :: "npfloat list \<Rightarrow> npfloat list" where
  "broadcast_first row = map (\<lambda>_. row ! 0) row"

text \<open>\<open>entry[:4] = entry[:4, 0:1]\<close>\<close>

definition identity_broadcast :: "nbrec \<Rightarrow> nbrec" where
  "identity_broadcast entry = map broadcast_first (take 4 entry) @ drop 4 entry"

definition startswith :: "string \<Rightarrow> string \<Rightarrow> bool" where
  "startswith k pre = (take (length pre) k = pre)"

fun async_broadcast :: "(nat \<times> string) list \<Rightarrow> nbrec \<Rightarrow> error + nbrec" where
  "async_broadcast [] entry = Inr entry"
| "async_broadcast ((i, k) # iks) entry =
     (if \<not> startswith k ''Async AD '' then async_broadcast iks entry
      else if i < length entry
        then async_broadcast iks (entry[i := broadcast_first (entry ! i)])
        else Inl IndexError)"

type_synonym meta = "(string, npfloat option) pydict"

definition channel_meta :: "string list \<Rightarrow> nbrec \<Rightarrow> nat \<Rightarrow> error + meta" where
  "channel_meta nb_keys entry i =
    (if length entry < length nb_keys then Inl IndexError
     else Inr (map (\<lambda>j. (nb_keys ! j,
                           if isnan (entry ! j ! i) then None else Some (entry ! j ! i)))
               [0..<length nb_keys]))"

definition finalize_entry :: "string list \<Rightarrow> nbrec \<Rightarrow> error + meta list" where
  "finalize_entry nb_keys entry =
    (case global_override entry of Inl e \<Rightarrow> Inl e | Inr e1 \<Rightarrow>
     case async_broadcast (zip [0..<length nb_keys] nb_keys) (identity_broadcast e1) of
       Inl e \<Rightarrow> Inl e
     | Inr e3 \<Rightarrow>
         map_err (channel_meta nb_keys e3)
           [0..<(case e3 of [] \<Rightarrow> 0 | row # _ \<Rightarrow> length row)])"

subsection \<open>The file object\<close>

text \<open>
  The backing store is an external collaborator: of the HDF5 file only the two datasets
  of the lab notebook are modelled. The attributes \<open>_tp_notebook\<close>, \<open>_notebook_keys\<close> and
  \<open>_tp_entries\<close> do not exist on a fresh object (\<open>__init__\<close> sets \<open>_notebook = None\<close> only):
  an absent attribute is \<open>None\<close> here, and Python's \<open>None\<close> as the value of
  \<open>_tp_entries\<close> is \<open>Some None\<close>.
\<close>

record hdf_file =
  numericalKeys :: "string list"
  numericalValues :: "nbrec list"

record tp_entry =
  timestamp :: datetime
  tp_fields :: "(string, npfloat list) pydict"
  stim :: "(string, npfloat) pydict"

type_synonym notebook_dict = "(int \<times> meta list) list"

record MiesNwb =
  hdf :: hdf_file
  attr_notebook :: "notebook_dict option"
  attr_tp_notebook :: "nbrec list option"
  attr_notebook_keys :: "(string, nat) pydict option"
  attr_tp_entries :: "tp_entry list option option"

definition MiesNwb_init :: "hdf_file \<Rightarrow> MiesNwb" where
  "MiesNwb_init h =
    \<lparr>hdf = h, attr_notebook = None, attr_tp_notebook = None,
     attr_notebook_keys = None, attr_tp_entries = None\<rparr>"

definition notebook :: "MiesNwb \<Rightarrow> (error + notebook_dict) \<times> MiesNwb" where
  "notebook self =
    (case attr_notebook self of
       Some nbk \<Rightarrow> (Inr nbk, self)
     | None \<Rightarrow>
        (let nb_keys = numericalKeys (hdf self); nb = numericalValues (hdf self) in
         case scan nb_keys nb 0 init_scan of Inl e \<Rightarrow> (Inl e, self) | Inr st \<Rightarrow>
         case map_err (\<lambda>(swid, entry).
                 case finalize_entry nb_keys entry of Inl e \<Rightarrow> Inl e
                 | Inr m \<Rightarrow> Inr (swid, m)) (sweep_entries st)
         of Inl e \<Rightarrow> (Inl e, self)
          | Inr nbk \<Rightarrow>
             (Inr nbk,
              self\<lparr>attr_notebook := Some nbk,
                   attr_tp_notebook := Some (tp_entries st),
                   attr_notebook_keys := Some (nb_fields nb_keys),
                   attr_tp_entries := Some None\<rparr>)))"

subsection \<open>\<open>MiesNwb.test_pulse_entries\<close>\<close>

text \<open>
  One pass of the loop over \<open>self._tp_notebook\<close>: the entry of one stored row. The rows
  are numpy arrays, so \<open>rec[i, :8]\<close> is the first eight channels of field \<open>i\<close>. A missing
  attribute \<open>_notebook_keys\<close> is \<open>None\<close>.
\<close>

fun entry_fields ::
  "(string, nat) pydict option \<Rightarrow> nbrec \<Rightarrow> string list \<Rightarrow> error + (string, npfloat list) pydict"
where
  "entry_fields keys rec [] = Inr []"
| "entry_fields keys rec (f # fs) =
    (case keys of None \<Rightarrow> Inl AttributeError | Some ks \<Rightarrow>
     (case dict_item ks f of Inl e \<Rightarrow> Inl e | Inr i \<Rightarrow>
     (case item1 rec i of Inl e \<Rightarrow> Inl e | Inr row \<Rightarrow>
     (case entry_fields keys rec fs of Inl e \<Rightarrow> Inl e | Inr d \<Rightarrow>
     Inr ((f, take 8 row) # d)))))"

fun entry_stim ::
  "(string, nat) pydict option \<Rightarrow> nbrec \<Rightarrow> string list \<Rightarrow> error + (string, npfloat) pydict"
where
  "entry_stim keys rec [] = Inr []"
| "entry_stim keys rec (f # fs) =
    (case keys of None \<Rightarrow> Inl AttributeError | Some ks \<Rightarrow>
     (case dict_item ks f of Inl e \<Rightarrow> Inl e | Inr i \<Rightarrow>
     (case item2 rec i 8 of Inl e \<Rightarrow> Inl e | Inr v \<Rightarrow>
     (case entry_stim keys rec fs of Inl e \<Rightarrow> Inl e | Inr d \<Rightarrow>
     Inr ((f, v) # d)))))"

definition fields_tp :: "string list" where
  "fields_tp = [''TP Baseline Vm'', ''TP Baseline pA'', ''TP Peak Resistance'',
             ''TP Steady State Resistance'']"

definition stim_fields :: "string list" where
  "stim_fields = [''TP Baseline Fraction'', ''TP Amplitude VC'', ''TP Amplitude IC'',
                  ''TP Pulse Duration'']"

definition tp_entry_of :: "(string, nat) pydict option \<Rightarrow> nbrec \<Rightarrow> error + tp_entry" where
  "tp_entry_of keys rec =
    (case item2 rec 1 0 of Inl e \<Rightarrow> Inl e | Inr ts \<Rightarrow>
    (case igorpro_date ts of Inl e \<Rightarrow> Inl e | Inr d \<Rightarrow>
    (case entry_fields keys rec fields_tp of Inl e \<Rightarrow> Inl e | Inr fd \<Rightarrow>
    (case entry_stim keys rec stim_fields of Inl e \<Rightarrow> Inl e | Inr sd \<Rightarrow>
    Inr \<lparr>timestamp = d, tp_fields = fd, stim = sd\<rparr>))))"

text \<open>
  The loop appends to \<open>self._tp_entries\<close> as it goes: an exception leaves the entries made
  so far in the attribute.
\<close>

fun tp_entries_loop ::
  "(string, nat) pydict option \<Rightarrow> nbrec list \<Rightarrow> tp_entry list \<Rightarrow> error option \<times> tp_entry list"
where
  "tp_entries_loop keys [] acc = (None, acc)"
| "tp_entries_loop keys (rec # recs) acc =
    (case tp_entry_of keys rec of Inl e \<Rightarrow> (Some e, acc)
     | Inr entry \<Rightarrow> tp_entries_loop keys recs (acc @ [entry]))"

definition test_pulse_entries :: "MiesNwb \<Rightarrow> (error + tp_entry list) \<times> MiesNwb" where
  "test_pulse_entries self =
    (case attr_tp_entries self of
       None \<Rightarrow> (Inl AttributeError, self)
     | Some (Some es) \<Rightarrow> (Inr es, self)
     | Some None \<Rightarrow>
        (case attr_tp_notebook self of
           None \<Rightarrow> (Inl AttributeError, self\<lparr>attr_tp_entries := Some (Some [])\<rparr>)
         | Some tp_nb \<Rightarrow>
            (case tp_entries_loop (attr_notebook_keys self) tp_nb [] of
               (Some e, es) \<Rightarrow> (Inl e, self\<lparr>attr_tp_entries := Some (Some es)\<rparr>)
             | (None, es) \<Rightarrow> (Inr es, self\<lparr>attr_tp_entries := Some (Some es)\<rparr>))))"

section \<open>Recordings: \<open>MiesRecording\<close>\<close>

datatype clamp_mode = VC | IC

text \<open>\<open>PatchClampTestPulse(self, indices=(start, stop))\<close>, a class outside this file.\<close>

record PatchClampTestPulse =
  indices :: "int \<times> int"

text \<open>
  \<open>MiesTestPulse\<close>: \<open>_nb_entry\<close> holds, for every array of the block, the value of the
  recording's channel.
\<close>

record MiesTestPulse =
  nb_entry :: "(string, npfloat) pydict"
  nb_entry_stim :: "(string, npfloat) pydict"
  tp_start_time :: datetime
  tp_device_id :: nat
  tp_clamp_mode :: clamp_mode

record MiesRecording =
  rec_notebook :: meta
  device_id :: nat
  primary_dt :: npfloat
  holding_potential :: "npfloat option"
  holding_current :: "npfloat option"
  meta_clamp_mode :: clamp_mode
  bridge_balance :: "npfloat option"
  lpf_cutoff :: "npfloat option"
  pipette_offset :: "npfloat option"
  start_time :: datetime
  attr_inserted_test_pulse :: "PatchClampTestPulse option"
  attr_nearest_test_pulse :: "MiesTestPulse option"

text \<open>\<open>x * c\<close> for a notebook value that is not None.\<close>

definition scaled :: "npfloat option \<Rightarrow> real \<Rightarrow> npfloat option" where
  "scaled v c = (case v of None \<Rightarrow> None | Some x \<Rightarrow> Some (np_mul x (Num c)))"

text \<open>\<open>v == c\<close> for a notebook value: None equals no number.\<close>

definition value_eq :: "npfloat option \<Rightarrow> real \<Rightarrow> bool" where
  "value_eq v c = (case v of None \<Rightarrow> False | Some x \<Rightarrow> np_eq x c)"

text \<open>A notebook value used in arithmetic: None raises TypeError.\<close>

definition num_item :: "meta \<Rightarrow> string \<Rightarrow> error + npfloat" where
  "num_item nb k =
    (case dict_item nb k of Inl e \<Rightarrow> Inl e
     | Inr None \<Rightarrow> Inl TypeError
     | Inr (Some x) \<Rightarrow> Inr x)"

text \<open>
  \<open>MiesRecording.__init__\<close>. The headstage id is read from the electrode name of the
  channel's HDF5 group and the sample interval from its \<open>IGORWaveScaling\<close> attribute
  (\<open>MiesTrace.__init__\<close>): both are parameters here, with the dictionary \<open>notebook()\<close> returned.
\<close>

definition MiesRecording_init ::
  "notebook_dict \<Rightarrow> int \<Rightarrow> nat \<Rightarrow> npfloat \<Rightarrow> error + MiesRecording" where
  "MiesRecording_init nbk sweep_id headstage_id wave_scaling =
    (case map_of nbk sweep_id of None \<Rightarrow> Inl KeyError | Some chans \<Rightarrow>
     (case item1 chans headstage_id of Inl e \<Rightarrow> Inl e | Inr nb \<Rightarrow>
     (case dict_item nb ''V-Clamp Holding Level'' of Inl e \<Rightarrow> Inl e | Inr vhold \<Rightarrow>
     (case dict_item nb ''I-Clamp Holding Level'' of Inl e \<Rightarrow> Inl e | Inr ihold \<Rightarrow>
     (case dict_item nb ''Clamp Mode'' of Inl e \<Rightarrow> Inl e | Inr cm \<Rightarrow>
     (case (if value_eq cm 0 then Inr None
           else (case dict_item nb ''Bridge Bal Enable'' of Inl e \<Rightarrow> Inl e | Inr en \<Rightarrow>
                  (if value_eq en 0 then Inr (Some (Num 0))
                   else (case dict_item nb ''Bridge Bal Value'' of Inl e \<Rightarrow> Inl e
                         | Inr None \<Rightarrow> Inr (Some (Num 0))
                         | Inr (Some bb) \<Rightarrow> Inr (Some (np_mul bb (Num 1000000))))))) of Inl e \<Rightarrow> Inl e | Inr bridge \<Rightarrow>
     (case dict_item nb ''LPF Cutoff'' of Inl e \<Rightarrow> Inl e | Inr lpf \<Rightarrow>
     (case dict_item nb ''Pipette Offset'' of Inl e \<Rightarrow> Inl e | Inr offset \<Rightarrow>
     (case dict_item nb ''TimeStamp'' of Inl e \<Rightarrow> Inl e | Inr None \<Rightarrow> Inl TypeError | Inr (Some ts) \<Rightarrow>
     (case igorpro_date ts of Inl e \<Rightarrow> Inl e | Inr d \<Rightarrow>
     Inr \<lparr>rec_notebook = nb, device_id = headstage_id,
          primary_dt = np_div wave_scaling (Num 1000),
          holding_potential = scaled vhold (1 / 1000),
          holding_current = scaled ihold (1 / 1000000000000),
          meta_clamp_mode = (if value_eq cm 0 then VC else IC),
          bridge_balance = bridge,
          lpf_cutoff = lpf,
          pipette_offset = scaled offset (1 / 1000),
          start_time = d,
          attr_inserted_test_pulse = None,
          attr_nearest_test_pulse = None\<rparr>))))))))))"

definition clamp_mode :: "MiesRecording \<Rightarrow> error + clamp_mode" where
  "clamp_mode self =
    (case dict_item (rec_notebook self) ''Clamp Mode'' of Inl e \<Rightarrow> Inl e
     | Inr cm \<Rightarrow> Inr (if value_eq cm 0 then VC else IC))"

definition has_inserted_test_pulse :: "MiesRecording \<Rightarrow> error + bool" where
  "has_inserted_test_pulse self =
    (case dict_item (rec_notebook self) ''TP Insert Checkbox'' of Inl e \<Rightarrow> Inl e
     | Inr v \<Rightarrow> Inr (value_eq v 1))"

text \<open>
  The body of \<open>inserted_test_pulse\<close> once a pulse is known to be inserted: the window,
  and the amplitude, which is computed (and may raise) but not stored. The stop index
  is the truncation of a quotient of doubles, so every operation is the machine's:
  the rounding decides on which side of an integer the quotient falls.
\<close>

definition inserted_window :: "MiesRecording \<Rightarrow> error + PatchClampTestPulse" where
  "inserted_window self =
    (let nb = rec_notebook self in
    (case num_item nb ''TP Pulse Duration'' of Inl e \<Rightarrow> Inl e | Inr pd \<Rightarrow>
    (let pdur = dbl_div pd (Num 1000) in
    (case num_item nb ''TP Baseline Fraction'' of Inl e \<Rightarrow> Inl e | Inr fraction \<Rightarrow>
    (let bdur = dbl_div pdur (dbl_sub (Num 1) (dbl_mul (Num 2) fraction));
         tdur = dbl_add pdur (dbl_mul (Num 2) bdur);
         start = 0 in
    (case py_int (dbl_div tdur (primary_dt self)) of Inl e \<Rightarrow> Inl e | Inr n \<Rightarrow>
    (let stop = start + n; tp = \<lparr>indices = (start, stop)\<rparr> in
    (case clamp_mode self of Inl e \<Rightarrow> Inl e | Inr mode \<Rightarrow>
    (case num_item nb (if mode = VC then ''TP Amplitude VC'' else ''TP Amplitude IC'') of Inl e \<Rightarrow> Inl e | Inr amp \<Rightarrow>
    Inr tp)))))))))"

definition inserted_test_pulse ::
  "MiesRecording \<Rightarrow> (error + PatchClampTestPulse option) \<times> MiesRecording" where
  "inserted_test_pulse self =
    (case attr_inserted_test_pulse self of
       Some tp \<Rightarrow> (Inr (Some tp), self)
     | None \<Rightarrow>
        (case has_inserted_test_pulse self of Inl e \<Rightarrow> (Inl e, self)
         | Inr has \<Rightarrow>
            if \<not> has then (Inr None, self)
            else (case inserted_window self of Inl e \<Rightarrow> (Inl e, self)
                  | Inr tp \<Rightarrow> (Inr (Some tp), self\<lparr>attr_inserted_test_pulse := Some tp\<rparr>))))"

text \<open>\<open>baseline_regions\<close>: pairs (start, stop) of sample indices; the stop may be None.\<close>

definition baseline_regions :: "MiesRecording \<Rightarrow> error + (int \<times> int option) list" where
  "baseline_regions self =
    (let nb = rec_notebook self; dt = primary_dt self in
    (case num_item nb ''Delay onset auto'' of Inl e \<Rightarrow> Inl e | Inr a \<Rightarrow>
    (let start = np_div a (Num 1000) in
    (case num_item nb ''Delay onset user'' of Inl e \<Rightarrow> Inl e | Inr u \<Rightarrow>
    (let dur = np_div u (Num 1000) in
    (case (if np_gt0 dur then
             (case py_int (np_div start dt) of Inl e \<Rightarrow> Inl e | Inr i0 \<Rightarrow>
               (case py_int (np_add start (np_div dur dt)) of Inl e \<Rightarrow> Inl e
                | Inr i1 \<Rightarrow> Inr [(i0, Some i1)]))
           else Inr []) of Inl e \<Rightarrow> Inl e | Inr regions \<Rightarrow>
    (case num_item nb ''Delay termination'' of Inl e \<Rightarrow> Inl e | Inr t \<Rightarrow>
    (let dur2 = np_div t (Num 1000) in
    (if np_gt0 dur2 then
        (case py_int (np_div dur2 dt) of Inl e \<Rightarrow> Inl e
         | Inr i2 \<Rightarrow> Inr (regions @ [(- i2, None)]))
      else Inr regions)))))))))"

section \<open>Standalone test pulses: \<open>MiesTestPulse\<close>\<close>

text \<open>\<open>v[chan]\<close> for every array of the block.\<close>

fun channel_values ::
  "(string, npfloat list) pydict \<Rightarrow> nat \<Rightarrow> error + (string, npfloat) pydict" where
  "channel_values [] chan = Inr []"
| "channel_values ((k, v) # kvs) chan =
    (case item1 v chan of Inl e \<Rightarrow> Inl e | Inr x \<Rightarrow>
    (case channel_values kvs chan of Inl e \<Rightarrow> Inl e | Inr d \<Rightarrow>
    Inr ((k, x) # d)))"

definition MiesTestPulse_init :: "tp_entry \<Rightarrow> MiesRecording \<Rightarrow> error + MiesTestPulse" where
  "MiesTestPulse_init entry rec =
    (let chan = device_id rec in
    (case channel_values (tp_fields entry) chan of Inl e \<Rightarrow> Inl e | Inr d \<Rightarrow>
    (case dict_item d ''TP Baseline Vm'' of Inl e \<Rightarrow> Inl e | Inr vm \<Rightarrow>
    Inr \<lparr>nb_entry = d, nb_entry_stim = stim entry, tp_start_time = timestamp entry,
          tp_device_id = device_id rec,
          tp_clamp_mode = (if isnan vm then VC else IC)\<rparr>)))"

text \<open>The properties: a result is a number or None; a missing key would raise KeyError.\<close>

definition access_resistance :: "MiesTestPulse \<Rightarrow> error + npfloat option" where
  "access_resistance self =
    (if tp_clamp_mode self = VC then
       (case dict_item (nb_entry self) ''TP Peak Resistance'' of Inl e \<Rightarrow> Inl e
        | Inr x \<Rightarrow> Inr (Some (np_mul x (Num 1000000))))
     else Inr None)"

definition input_resistance :: "MiesTestPulse \<Rightarrow> error + npfloat option" where
  "input_resistance self =
    (case dict_item (nb_entry self) ''TP Steady State Resistance'' of Inl e \<Rightarrow> Inl e
     | Inr x \<Rightarrow> Inr (Some (np_mul x (Num 1000000))))"

definition baseline_potential :: "MiesTestPulse \<Rightarrow> error + npfloat option" where
  "baseline_potential self =
    (if tp_clamp_mode self = IC then
       (case dict_item (nb_entry self) ''TP Baseline Vm'' of Inl e \<Rightarrow> Inl e
        | Inr x \<Rightarrow> Inr (Some (np_mul x (Num (1 / 1000)))))
     else Inr None)"

definition baseline_current :: "MiesTestPulse \<Rightarrow> error + npfloat option" where
  "baseline_current self =
    (if tp_clamp_mode self = VC then
       (case dict_item (nb_entry self) ''TP Baseline pA'' of Inl e \<Rightarrow> Inl e
        | Inr x \<Rightarrow> Inr (Some (np_mul x (Num (1 / 1000000000000)))))
     else Inr None)"

section \<open>The nearest test pulse\<close>

text \<open>The loop of \<open>_find_nearest_test_pulse\<close>, with its variables \<open>min_dt\<close> and \<open>nearest\<close>.\<close>

fun nearest_loop ::
  "datetime \<Rightarrow> tp_entry list \<Rightarrow> real option \<Rightarrow> tp_entry option \<Rightarrow> tp_entry option" where
  "nearest_loop start [] min_dt nearest = nearest"
| "nearest_loop start (entry # entries) min_dt nearest =
    (let dt = \<bar>total_seconds (timestamp entry - start)\<bar> in
     if (case min_dt of None \<Rightarrow> True | Some m \<Rightarrow> dt < m)
     then nearest_loop start entries (Some dt) (Some entry)
     else nearest_loop start entries min_dt nearest)"

datatype test_pulse = Inserted PatchClampTestPulse | Standalone MiesTestPulse

definition find_nearest_test_pulse ::
  "MiesRecording \<Rightarrow> MiesNwb \<Rightarrow> error option \<times> MiesRecording \<times> MiesNwb" where
  "find_nearest_test_pulse self nwb =
    (case test_pulse_entries nwb of
       (Inl e, nwb') \<Rightarrow> (Some e, self, nwb')
     | (Inr entries, nwb') \<Rightarrow>
        (case nearest_loop (start_time self) entries None None of
           None \<Rightarrow> (None, self, nwb')
         | Some nearest \<Rightarrow>
            (case MiesTestPulse_init nearest self of
               Inl e \<Rightarrow> (Some e, self, nwb')
             | Inr tp \<Rightarrow> (None, self\<lparr>attr_nearest_test_pulse := Some tp\<rparr>, nwb'))))"

definition nearest_test_pulse ::
  "MiesRecording \<Rightarrow> MiesNwb \<Rightarrow> (error + test_pulse option) \<times> MiesRecording \<times> MiesNwb" where
  "nearest_test_pulse self nwb =
    (case has_inserted_test_pulse self of Inl e \<Rightarrow> (Inl e, self, nwb)
     | Inr has \<Rightarrow>
        if has then
          (case inserted_test_pulse self of
             (Inl e, self') \<Rightarrow> (Inl e, self', nwb)
           | (Inr tp, self') \<Rightarrow> (Inr (map_option Inserted tp), self', nwb))
        else
          (case attr_nearest_test_pulse self of
             Some tp \<Rightarrow> (Inr (Some (Standalone tp)), self, nwb)
           | None \<Rightarrow>
              (case find_nearest_test_pulse self nwb of
                 (Some e, self', nwb') \<Rightarrow> (Inl e, self', nwb')
               | (None, self', nwb') \<Rightarrow>
                   (Inr (map_option Standalone (attr_nearest_test_pulse self')), self', nwb'))))"

section \<open>Specification-level notions for the scan\<close>

text \<open>A row of a numpy table with \<open>nf\<close> fields and \<open>nc\<close> channels.\<close>

definition rect :: "nat \<Rightarrow> nat \<Rightarrow> nbrec \<Rightarrow> bool" where
  "rect nf nc r = (length r = nf \<and> list_all (\<lambda>row. length row = nc) r)"

text \<open>The rows the loop takes and handles as sweep records, in scan order.\<close>

definition is_sweep_row :: "string list \<Rightarrow> nbrec list \<Rightarrow> nat \<Rightarrow> bool" where
  "is_sweep_row nb_keys nb i =
    (case classify nb_keys nb i of Inr (SweepRecord, p) \<Rightarrow> True | _ \<Rightarrow> False)"

definition sweep_rows :: "string list \<Rightarrow> nbrec list \<Rightarrow> nat list" where
  "sweep_rows nb_keys nb = filter (is_sweep_row nb_keys nb) (visited nb_keys nb 0 init_scan)"

text \<open>\<open>int(rec[0,0])\<close>, the truncated sweep number a row is grouped by.\<close>

definition sweep_num_of :: "nbrec \<Rightarrow> int option" where
  "sweep_num_of r =
    (case item2 r 0 0 of Inl e \<Rightarrow> None
     | Inr x \<Rightarrow> (case py_int x of Inl e \<Rightarrow> None | Inr s \<Rightarrow> Some s))"

definition rows_of_sweep :: "string list \<Rightarrow> nbrec list \<Rightarrow> int \<Rightarrow> nat list" where
  "rows_of_sweep nb_keys nb s =
     filter (\<lambda>i. sweep_num_of (nb ! i) = Some s) (sweep_rows nb_keys nb)"

definition rows_from ::
  "string list \<Rightarrow> nbrec list \<Rightarrow> nat \<Rightarrow> scan_state \<Rightarrow> int \<Rightarrow> nat list" where
  "rows_from nb_keys nb p st s =
     filter (\<lambda>i. sweep_num_of (nb ! i) = Some s)
       (filter (is_sweep_row nb_keys nb) (visited nb_keys nb p st))"

definition cell_at :: "(int \<times> nbrec) list \<Rightarrow> int \<Rightarrow> nat \<Rightarrow> nat \<Rightarrow> npfloat" where
  "cell_at es s f c = (case map_of es s of None \<Rightarrow> NaN | Some e \<Rightarrow> e ! f ! c)"

text \<open>The last, and the first, value of a sequence that is not NaN (NaN when there is none).\<close>

definition last_non_nan :: "npfloat list \<Rightarrow> npfloat" where
  "last_non_nan vs =
    (let ws = filter (\<lambda>v. \<not> isnan v) vs in if ws = [] then NaN else last ws)"

definition first_non_nan :: "npfloat list \<Rightarrow> npfloat" where
  "first_non_nan vs = (case filter (\<lambda>v. \<not> isnan v) vs of [] \<Rightarrow> NaN | v # _ \<Rightarrow> v)"

text \<open>
  The durations of an inserted test pulse, in the words of the specification: the
  baseline before and after the pulse, and the whole test-pulse region, each formula
  evaluated in doubles.
\<close>

definition baseline_duration :: "npfloat \<Rightarrow> npfloat \<Rightarrow> npfloat" where
  "baseline_duration pulse_duration baseline_fraction =
     dbl_div pulse_duration (dbl_sub (Num 1) (dbl_mul (Num 2) baseline_fraction))"

definition total_duration :: "npfloat \<Rightarrow> npfloat \<Rightarrow> npfloat" where
  "total_duration pulse_duration baseline_fraction =
     dbl_add pulse_duration
       (dbl_mul (Num 2) (baseline_duration pulse_duration baseline_fraction))"

text \<open>
  The distance in time, in seconds, between a test-pulse block and a start time; a block
  as \<open>test_pulse_entries\<close> builds it from a table with nine channels; and the first block
  of a list that is nearest to a start time: strictly nearer than every block before
  it, at least as near as every block after it.
\<close>

definition time_distance :: "datetime \<Rightarrow> tp_entry \<Rightarrow> real" where
  "time_distance start e = \<bar>total_seconds (timestamp e - start)\<bar>"

definition entry_ok :: "tp_entry \<Rightarrow> bool" where
  "entry_ok e = (map fst (tp_fields e) = fields_tp \<and>
                 list_all (\<lambda>v. length v = 8) (map snd (tp_fields e)))"

definition first_min :: "datetime \<Rightarrow> tp_entry list \<Rightarrow> tp_entry \<Rightarrow> bool" where
  "first_min start es r =
    (\<exists>pre post. es = pre @ r # post \<and>
       (\<forall>e\<in>set pre. time_distance start r < time_distance start e) \<and>
       (\<forall>e\<in>set post. time_distance start r \<le> time_distance start e))"

section \<open>Example tables\<close>

definition nan_row :: "npfloat list" where
  "nan_row = replicate 9 NaN"

text \<open>A table with the discriminant field: two rows of sweep 5, and two test-pulse rows.\<close>

definition est_keys :: "string list" where
  "est_keys = [''SweepNum'', ''TimeStamp'', ''EntrySourceType'', ''V-Clamp Holding Level'']"

definition row_a :: nbrec where
  "row_a = [nan_row[0 := Num 5], nan_row[0 := Num 100], nan_row[0 := Num 0],
            nan_row[0 := Num 1]]"

definition row_b :: nbrec where
  "row_b = [nan_row[0 := Num 5], nan_row, nan_row[0 := Num 0],
            nan_row[0 := Num 2, 1 := Num 7]]"

definition merged_ab :: nbrec where
  "merged_ab = [nan_row[0 := Num 5], nan_row[0 := Num 100], nan_row[0 := Num 0],
                nan_row[0 := Num 2, 1 := Num 7]]"

definition tp_a :: nbrec where
  "tp_a = [nan_row, nan_row[0 := Num 200], nan_row[0 := Num 1], nan_row]"

definition tp_b :: nbrec where
  "tp_b = [nan_row, nan_row, nan_row[0 := Num 1], nan_row[0 := Num (-70)]]"

definition tp_ab :: nbrec where
  "tp_ab = [nan_row, nan_row[0 := Num 200], nan_row[0 := Num 1], nan_row[0 := Num (-70)]]"

text \<open>A table of an older file, without the discriminant field.\<close>

definition legacy_keys :: "string list" where
  "legacy_keys = [''SweepNum'', ''TimeStamp'', ''TP Peak Resistance'', ''TP Pulse Duration'']"

definition leg_peak :: nbrec where
  "leg_peak = [nan_row, nan_row[0 := Num 300], nan_row[0 := Num 12], nan_row]"

definition leg_dur :: nbrec where
  "leg_dur = [nan_row, nan_row, nan_row, nan_row[8 := Num 10]]"

definition leg_peak_dur :: nbrec where
  "leg_peak_dur = [nan_row, nan_row[0 := Num 300], nan_row[0 := Num 12], nan_row[8 := Num 10]]"

definition leg_sweep6 :: nbrec where
  "leg_sweep6 = [nan_row[0 := Num 6], nan_row[0 := Num 301], nan_row, nan_row]"

definition leg_sweep7 :: nbrec where
  "leg_sweep7 = [nan_row[0 := Num 7], nan_row[0 := Num 302], nan_row, nan_row]"

definition file_of :: "string list \<Rightarrow> nbrec list \<Rightarrow> MiesNwb" where
  "file_of nb_keys nb = MiesNwb_init \<lparr>numericalKeys = nb_keys, numericalValues = nb\<rparr>"

text \<open>
  The notebook dictionary of one sweep, the same for all nine channels, and the recording
  \<open>MiesRecording.__init__\<close> builds from it for headstage 0 when the \<open>IGORWaveScaling\<close>
  attribute of the trace is \<open>ws\<close> milliseconds per sample.
\<close>

definition example_meta :: meta where
  "example_meta =
    [(''SweepNum'', Some (Num 5)), (''TimeStamp'', Some (Num 3600)),
     (''Clamp Mode'', Some (Num 0)),
     (''V-Clamp Holding Level'', Some (Num (-70))), (''I-Clamp Holding Level'', None),
     (''LPF Cutoff'', Some (Num 10)), (''Pipette Offset'', Some (Num 2)),
     (''TP Insert Checkbox'', Some (Num 1)), (''TP Pulse Duration'', Some (Num 10)),
     (''TP Baseline Fraction'', Some (Num (1 / 4))), (''TP Amplitude VC'', Some (Num 10)),
     (''TP Amplitude IC'', None),
     (''Delay onset auto'', Some (Num 50)), (''Delay onset user'', Some (Num 100)),
     (''Delay termination'', Some (Num 0))]"

definition example_notebook :: notebook_dict where
  "example_notebook = [(5, replicate 9 example_meta)]"

definition example_recording :: "real \<Rightarrow> MiesRecording" where
  "example_recording ws =
    \<lparr>rec_notebook = example_meta, device_id = 0,
     primary_dt = Num (ws / 1000),
     holding_potential = Some (Num (- 7 / 100)),
     holding_current = None,
     meta_clamp_mode = VC,
     bridge_balance = None,
     lpf_cutoff = Some (Num 10),
     pipette_offset = Some (Num (1 / 500)),
     start_time = datetime_ymd 1904 1 1 + 3600000000,
     attr_inserted_test_pulse = None,
     attr_nearest_test_pulse = None\<rparr>"

text \<open>
  The same recording with another sample interval \<open>dt\<close> of its trace (a double, in
  seconds), and with another baseline fraction.
\<close>

definition window_recording :: "npfloat \<Rightarrow> MiesRecording" where
  "window_recording dt = (example_recording (1 / 10))\<lparr>primary_dt := dt\<rparr>"

definition fraction_recording :: "npfloat \<Rightarrow> npfloat \<Rightarrow> MiesRecording" where
  "fraction_recording fr dt =
     (example_recording (1 / 10))
       \<lparr>rec_notebook := AList.update ''TP Baseline Fraction'' (Some fr) example_meta,
        primary_dt := dt\<rparr>"

text \<open>
  The notebook dictionary of a sweep whose "LPF Cutoff" and "Pipette Offset" are unset.
\<close>

definition unset_meta :: meta where
  "unset_meta =
     AList.update ''LPF Cutoff'' None (AList.update ''Pipette Offset'' None example_meta)"

definition unset_recording :: MiesRecording where
  "unset_recording =
     (example_recording (1 / 10))
       \<lparr>rec_notebook := unset_meta, lpf_cutoff := None, pipette_offset := None\<rparr>"

text \<open>
  A table with the fields of the test pulse: row \<open>tpf_a t\<close> (time stamp \<open>t\<close>, headstage 0
  in voltage clamp, headstage 1 in current clamp) and row \<open>tpf_b\<close> (the stimulus settings
  in the global column) make one block, \<open>tpf_ab t\<close>.
\<close>

definition tp_keys :: "string list" where
  "tp_keys = [''SweepNum'', ''TimeStamp'', ''EntrySourceType'', ''TP Baseline Vm'',
              ''TP Baseline pA'', ''TP Peak Resistance'', ''TP Steady State Resistance'',
              ''TP Baseline Fraction'', ''TP Amplitude VC'', ''TP Amplitude IC'',
              ''TP Pulse Duration'']"

definition tpf_a :: "real \<Rightarrow> nbrec" where
  "tpf_a t = [nan_row, nan_row[0 := Num t], nan_row[0 := Num 1],
              nan_row[1 := Num (- 65)], nan_row[0 := Num 20],
              nan_row[0 := Num 12, 1 := Num 15], nan_row[0 := Num 150, 1 := Num 200],
              nan_row, nan_row, nan_row, nan_row]"

definition tpf_b :: nbrec where
  "tpf_b = [nan_row, nan_row, nan_row[0 := Num 1], nan_row, nan_row, nan_row, nan_row,
            nan_row[8 := Num (1 / 4)], nan_row[8 := Num 10], nan_row[8 := Num (- 50)],
            nan_row[8 := Num 10]]"

definition tpf_ab :: "real \<Rightarrow> nbrec" where
  "tpf_ab t = [nan_row, nan_row[0 := Num t], nan_row[0 := Num 1],
               nan_row[1 := Num (- 65)], nan_row[0 := Num 20],
               nan_row[0 := Num 12, 1 := Num 15], nan_row[0 := Num 150, 1 := Num 200],
               nan_row[8 := Num (1 / 4)], nan_row[8 := Num 10], nan_row[8 := Num (- 50)],
               nan_row[8 := Num 10]]"

definition example_entry :: "int \<Rightarrow> tp_entry" where
  "example_entry t =
    \<lparr>timestamp = datetime_ymd 1904 1 1 + t * 1000000,
     tp_fields =
       [(''TP Baseline Vm'', (replicate 8 NaN)[1 := Num (- 65)]),
        (''TP Baseline pA'', (replicate 8 NaN)[0 := Num 20]),
        (''TP Peak Resistance'', (replicate 8 NaN)[0 := Num 12, 1 := Num 15]),
        (''TP Steady State Resistance'', (replicate 8 NaN)[0 := Num 150, 1 := Num 200])],
     stim =
       [(''TP Baseline Fraction'', Num (1 / 4)), (''TP Amplitude VC'', Num 10),
        (''TP Amplitude IC'', Num (- 50)), (''TP Pulse Duration'', Num 10)]\<rparr>"

definition tie_table :: "nbrec list" where
  "tie_table = [tpf_a 3000, tpf_b, tpf_a 4200, tpf_b]"

text \<open>The file object after a call of notebook() on the table.\<close>

definition tie_nwb :: MiesNwb where
  "tie_nwb = (file_of tp_keys tie_table)
     \<lparr>attr_notebook := Some [], attr_tp_notebook := Some [tpf_ab 3000, tpf_ab 4200],
      attr_notebook_keys := Some (nb_fields tp_keys), attr_tp_entries := Some None\<rparr>"

definition tie_entries :: "tp_entry list" where
  "tie_entries = [example_entry 3000, example_entry 4200]"

text \<open>A recording without an inserted test pulse, on headstage \<open>chan\<close>.\<close>

definition no_pulse_meta :: meta where
  "no_pulse_meta = AList.update ''TP Insert Checkbox'' (Some (Num 0)) example_meta"

definition no_pulse_recording :: "nat \<Rightarrow> MiesRecording" where
  "no_pulse_recording chan =
     (example_recording (1 / 10))\<lparr>rec_notebook := no_pulse_meta, device_id := chan\<rparr>"

text \<open>The test pulses built from the block at 3000 s for headstages 0 and 1.\<close>

definition vc_pulse :: MiesTestPulse where
  "vc_pulse =
    \<lparr>nb_entry = [(''TP Baseline Vm'', NaN), (''TP Baseline pA'', Num 20),
                 (''TP Peak Resistance'', Num 12), (''TP Steady State Resistance'', Num 150)],
     nb_entry_stim = stim (example_entry 3000),
     tp_start_time = timestamp (example_entry 3000),
     tp_device_id = 0, tp_clamp_mode = VC\<rparr>"

definition ic_pulse :: MiesTestPulse where
  "ic_pulse =
    \<lparr>nb_entry = [(''TP Baseline Vm'', Num (- 65)), (''TP Baseline pA'', NaN),
                 (''TP Peak Resistance'', Num 15), (''TP Steady State Resistance'', Num 200)],
     nb_entry_stim = stim (example_entry 3000),
     tp_start_time = timestamp (example_entry 3000),
     tp_device_id = 1, tp_clamp_mode = IC\<rparr>"

section \<open>Properties of the scan\<close>

declare scan.simps [simp del] visited.simps [simp del]

text \<open>Every pass of the loop body moves the iterator forward.\<close>

lemma classify_advances: "classify nb_keys nb i = Inr (kind, p) \<Longrightarrow> i < p"
  by (auto simp: classify_def Let_def split: sum.splits option.splits if_splits)

lemma process_advances: "process nb i kind p st = Inr (p', st') \<Longrightarrow> p \<le> p'"
  by (auto simp: process_def split: row_kind.splits sum.splits option.splits if_splits)

lemma step_advances: "step nb_keys nb i st = Inr (p', st') \<Longrightarrow> i < p'"
  by (auto simp: step_def split: sum.splits prod.splits
           dest!: classify_advances process_advances)


lemma visited_unfold:
  "p < length nb \<Longrightarrow> visited nb_keys nb p st =
     p # (case step nb_keys nb p st of Inl e \<Rightarrow> []
          | Inr (p', st') \<Rightarrow> visited nb_keys nb p' st')"
  by (subst visited.simps) simp

lemma visited_end: "length nb \<le> p \<Longrightarrow> visited nb_keys nb p st = []"
  by (subst visited.simps) simp

lemma scan_unfold:
  "p < length nb \<Longrightarrow> scan nb_keys nb p st =
     (case step nb_keys nb p st of Inl e \<Rightarrow> Inl e
      | Inr (p', st') \<Rightarrow> scan nb_keys nb p' st')"
  by (subst scan.simps) simp

lemma scan_end: "length nb \<le> p \<Longrightarrow> scan nb_keys nb p st = Inr st"
  by (subst scan.simps) simp

text \<open>A row the loop takes is in the table, and the scan passes through it.\<close>

lemma visited_scan:
  "i \<in> set (visited nb_keys nb p st) \<Longrightarrow>
     i < length nb \<and> (\<exists>st'. scan nb_keys nb p st = scan nb_keys nb i st')"
proof (induction nb_keys nb p st rule: visited.induct)
  case (1 nb_keys nb p st)
  from "1.prems" have p: "p < length nb"
    by (cases "length nb \<le> p") (simp_all add: visited_end)
  show ?case
  proof (cases "i = p")
    case True
    with p show ?thesis by blast
  next
    case False
    from "1.prems" p False
    have "i \<in> set (case step nb_keys nb p st of Inl e \<Rightarrow> []
                     | Inr (p', st') \<Rightarrow> visited nb_keys nb p' st')"
      by (simp add: visited_unfold)
    then obtain p' st' where s: "step nb_keys nb p st = Inr (p', st')"
      and v: "i \<in> set (visited nb_keys nb p' st')"
      by (cases "step nb_keys nb p st") auto
    from "1.IH"[of "(p', st')" p' st'] p s v
    have "i < length nb \<and> (\<exists>st''. scan nb_keys nb p' st' = scan nb_keys nb i st'')"
      by simp
    moreover from p s have "scan nb_keys nb p st = scan nb_keys nb p' st'"
      by (simp add: scan_unfold)
    ultimately show ?thesis by auto
  qed
qed

subsection \<open>Merging the rows of a sweep\<close>

lemma isnan_iff: "isnan x = (x = NaN)"
  by (cases x) simp_all

lemma overlay_rect:
  assumes "rect nf nc e" "rect nf nc r"
  shows "rect nf nc (overlay e r)"
  using assms
  by (auto simp: rect_def overlay_def list_all_iff set_zip)

lemma overlay_nth:
  assumes "rect nf nc e" "rect nf nc r" "f < nf" "c < nc"
  shows "overlay e r ! f ! c = overlay_cell (e ! f ! c) (r ! f ! c)"
  using assms
  by (auto simp: rect_def overlay_def list_all_length)

lemma list_all_update:
  "list_all P (map snd al) \<Longrightarrow> P v \<Longrightarrow> list_all P (map snd (AList.update k v al))"
  by (induction al) auto

lemma list_all_map_of:
  "list_all P (map snd al) \<Longrightarrow> map_of al k = Some e \<Longrightarrow> P e"
  by (auto simp: list_all_iff dest!: map_of_SomeD)

lemma last_non_nan_step:
  "last_non_nan (a # x # xs) = last_non_nan (overlay_cell a x # xs)"
  by (auto simp: last_non_nan_def overlay_cell_def Let_def)

lemma last_non_nan_single: "last_non_nan [a] = a"
  by (auto simp: last_non_nan_def isnan_iff)

lemma last_non_nan_NaN: "last_non_nan (NaN # xs) = last_non_nan xs"
  by (auto simp: last_non_nan_def)

lemma process_non_sweep:
  "process nb i kind p st = Inr (p', st1) \<Longrightarrow> kind \<noteq> SweepRecord \<Longrightarrow>
     sweep_entries st1 = sweep_entries st"
  by (cases kind) (auto simp: process_def split: sum.splits if_splits)

lemma process_sweep:
  assumes "process nb i SweepRecord p st = Inr (p', st1)"
  obtains s0 where "sweep_num_of (nb ! i) = Some s0"
    and "sweep_entries st1 =
          AList.update s0 (case map_of (sweep_entries st) s0 of None \<Rightarrow> nb ! i
                           | Some e \<Rightarrow> overlay e (nb ! i)) (sweep_entries st)"
  using assms
  by (auto simp: process_def sweep_num_of_def split: sum.splits option.splits)

text \<open>One pass of the loop body: what it does to the record of sweep \<open>s\<close>.\<close>

lemma step_effect:
  assumes st: "step nb_keys nb p st = Inr (p', st1)"
    and p: "p < length nb"
    and wf: "list_all (rect nf nc) nb"
    and inv: "list_all (rect nf nc) (map snd (sweep_entries st))"
  shows "list_all (rect nf nc) (map snd (sweep_entries st1)) \<and>
    ((map_of (sweep_entries st1) s = None) =
       (map_of (sweep_entries st) s = None \<and>
        \<not> (is_sweep_row nb_keys nb p \<and> sweep_num_of (nb ! p) = Some s))) \<and>
    (f < nf \<and> c < nc \<longrightarrow>
      cell_at (sweep_entries st1) s f c =
       (if is_sweep_row nb_keys nb p \<and> sweep_num_of (nb ! p) = Some s
        then overlay_cell (cell_at (sweep_entries st) s f c) (nb ! p ! f ! c)
        else cell_at (sweep_entries st) s f c))"
proof -
  from st obtain kind q where c: "classify nb_keys nb p = Inr (kind, q)"
    and pr: "process nb p kind q st = Inr (p', st1)"
    by (auto simp: step_def split: sum.splits prod.splits)
  from wf p have rp: "rect nf nc (nb ! p)"
    by (simp add: list_all_length)
  show ?thesis
  proof (cases "kind = SweepRecord")
    case False
    with c have "\<not> is_sweep_row nb_keys nb p"
      by (cases kind) (simp_all add: is_sweep_row_def)
    moreover from pr False have "sweep_entries st1 = sweep_entries st"
      by (rule process_non_sweep)
    ultimately show ?thesis using inv by simp
  next
    case True
    with c have isr: "is_sweep_row nb_keys nb p"
      by (simp add: is_sweep_row_def)
    from pr True obtain s0 where s0: "sweep_num_of (nb ! p) = Some s0"
      and upd: "sweep_entries st1 =
          AList.update s0 (case map_of (sweep_entries st) s0 of None \<Rightarrow> nb ! p
                           | Some e \<Rightarrow> overlay e (nb ! p)) (sweep_entries st)"
      by (auto elim: process_sweep)
    let ?v = "case map_of (sweep_entries st) s0 of None \<Rightarrow> nb ! p
              | Some e \<Rightarrow> overlay e (nb ! p)"
    have rv: "rect nf nc ?v"
      using rp inv by (auto split: option.splits intro!: overlay_rect dest: list_all_map_of)
    have m: "map_of (sweep_entries st1) = (map_of (sweep_entries st))(s0 \<mapsto> ?v)"
      by (simp add: upd update_conv')
    have 1: "list_all (rect nf nc) (map snd (sweep_entries st1))"
      unfolding upd using inv rv by (rule list_all_update)
    have 2: "(map_of (sweep_entries st1) s = None) =
       (map_of (sweep_entries st) s = None \<and>
        \<not> (is_sweep_row nb_keys nb p \<and> sweep_num_of (nb ! p) = Some s))"
      using isr s0 by (auto simp: m)
    have 3: "cell_at (sweep_entries st1) s f c =
       (if is_sweep_row nb_keys nb p \<and> sweep_num_of (nb ! p) = Some s
        then overlay_cell (cell_at (sweep_entries st) s f c) (nb ! p ! f ! c)
        else cell_at (sweep_entries st) s f c)" if fc: "f < nf" "c < nc"
    proof (cases "s = s0")
      case False
      then show ?thesis using s0 by (simp add: cell_at_def m)
    next
      case True
      show ?thesis
      proof (cases "map_of (sweep_entries st) s0")
        case None
        then show ?thesis using True isr s0
          by (simp add: cell_at_def m overlay_cell_def isnan_iff)
      next
        case (Some e)
        with inv have "rect nf nc e" by (auto dest: list_all_map_of)
        then show ?thesis using True isr s0 Some rp fc
          by (simp add: cell_at_def m overlay_nth)
      qed
    qed
    from 1 2 3 show ?thesis by blast
  qed
qed

lemma scan_merge:
  assumes "scan nb_keys nb p st = Inr st'"
    and "list_all (rect nf nc) nb"
    and "list_all (rect nf nc) (map snd (sweep_entries st))"
  shows "list_all (rect nf nc) (map snd (sweep_entries st')) \<and>
    ((map_of (sweep_entries st') s = None) =
       (map_of (sweep_entries st) s = None \<and> rows_from nb_keys nb p st s = [])) \<and>
    (f < nf \<and> c < nc \<longrightarrow>
      cell_at (sweep_entries st') s f c =
        last_non_nan (cell_at (sweep_entries st) s f c #
                      map (\<lambda>i. nb ! i ! f ! c) (rows_from nb_keys nb p st s)))"
  using assms
proof (induction nb_keys nb p st rule: scan.induct)
  case (1 nb_keys nb p st)
  show ?case
  proof (cases "length nb \<le> p")
    case True
    with "1.prems" show ?thesis
      by (simp add: scan_end visited_end rows_from_def last_non_nan_single)
  next
    case False
    then have p: "p < length nb" by simp
    with "1.prems"(1) obtain p' st1 where s: "step nb_keys nb p st = Inr (p', st1)"
      and sc: "scan nb_keys nb p' st1 = Inr st'"
      by (cases "step nb_keys nb p st") (auto simp: scan_unfold)
    note eff = step_effect[OF s p "1.prems"(2) "1.prems"(3), of s f c]
    from eff have inv1: "list_all (rect nf nc) (map snd (sweep_entries st1))" by blast
    note ih = "1.IH"[OF False s refl sc "1.prems"(2) inv1]
    have rows: "rows_from nb_keys nb p st s =
        (if is_sweep_row nb_keys nb p \<and> sweep_num_of (nb ! p) = Some s then [p] else [])
        @ rows_from nb_keys nb p' st1 s"
      using p s by (simp add: rows_from_def visited_unfold)
    show ?thesis
    proof (cases "is_sweep_row nb_keys nb p \<and> sweep_num_of (nb ! p) = Some s")
      case True
      with eff ih rows show ?thesis
        by (simp add: last_non_nan_step)
    next
      case False
      with eff ih rows show ?thesis
        by auto
    qed
  qed
qed

text \<open>
  C1 (as amended). The loop of \<open>notebook()\<close> groups the rows it handles as sweep records by
  the truncated integer sweep number \<open>int(rec[0,0])\<close>: a sweep has a record exactly when
  some such row maps to it, and every field and channel position of the merged record
  holds the \<^emph>\<open>last\<close> non-NaN value among the rows of that sweep in scan order (NaN when
  all of them are NaN there): a later non-NaN value overwrites an earlier one, a later
  NaN never does.
\<close>

theorem sweep_merge_last_non_nan:
  assumes "scan nb_keys nb 0 init_scan = Inr st"
    and "list_all (rect nf nc) nb"
  shows "((map_of (sweep_entries st) s = None) = (rows_of_sweep nb_keys nb s = [])) \<and>
     (\<forall>entry f c. map_of (sweep_entries st) s = Some entry \<and> f < nf \<and> c < nc \<longrightarrow>
        entry ! f ! c =
          last_non_nan (map (\<lambda>i. nb ! i ! f ! c) (rows_of_sweep nb_keys nb s)))"
proof -
  have rows: "rows_from nb_keys nb 0 init_scan s = rows_of_sweep nb_keys nb s"
    by (simp add: rows_from_def rows_of_sweep_def sweep_rows_def)
  have inv: "list_all (rect nf nc) (map snd (sweep_entries init_scan))"
    by (simp add: init_scan_def)
  have e: "map_of (sweep_entries init_scan) s = None"
    by (simp add: init_scan_def)
  have 1: "(map_of (sweep_entries st) s = None) = (rows_of_sweep nb_keys nb s = [])"
    using scan_merge[OF assms(1) assms(2) inv, of s 0 0] e rows by simp
  have 2: "entry ! f ! c =
      last_non_nan (map (\<lambda>i. nb ! i ! f ! c) (rows_of_sweep nb_keys nb s))"
    if "map_of (sweep_entries st) s = Some entry" "f < nf" "c < nc" for entry f c
    using scan_merge[OF assms(1) assms(2) inv, of s f c] e rows that
    by (simp add: cell_at_def last_non_nan_NaN)
  from 1 2 show ?thesis by blast
qed

theorem sweep_merge_last_non_nan_witness:
  "scan est_keys [row_a, row_b] 0 init_scan
     = Inr \<lparr>sweep_entries = [(5, merged_ab)], tp_entries = []\<rparr> \<and>
   list_all (rect 4 9) [row_a, row_b] \<and>
   rows_of_sweep est_keys [row_a, row_b] 5 = [0, 1] \<and>
   merged_ab ! 3 ! 0 = last_non_nan [row_a ! 3 ! 0, row_b ! 3 ! 0] \<and>
   merged_ab ! 3 ! 0 = Num 2"
proof -
  have h1: "scan est_keys [row_a, row_b] 0 init_scan
     = Inr \<lparr>sweep_entries = [(5, merged_ab)], tp_entries = []\<rparr>"
    by code_simp
  have h2: "list_all (rect 4 9) [row_a, row_b]"
    by code_simp
  have h3: "rows_of_sweep est_keys [row_a, row_b] 5 = [0, 1]"
    by code_simp
  have h4: "merged_ab ! 3 ! 0 = Num 2"
    by code_simp
  from sweep_merge_last_non_nan[OF h1 h2, of 5] h3
  have "merged_ab ! 3 ! 0 = last_non_nan [row_a ! 3 ! 0, row_b ! 3 ! 0]"
    by simp
  with h1 h2 h3 h4 show ?thesis by blast
qed

text \<open>
  C1 as stated fails: rows \<open>row_a\<close> and \<open>row_b\<close> both belong to sweep 5 and both set field 3
  of channel 0; the merged record, and the dictionary \<open>notebook()\<close> returns, hold the later
  value 2, not the first non-NaN value 1.
\<close>

theorem sweep_merge_first_non_nan_counterexample:
  "scan est_keys [row_a, row_b] 0 init_scan
     = Inr \<lparr>sweep_entries = [(5, merged_ab)], tp_entries = []\<rparr> \<and>
   rows_of_sweep est_keys [row_a, row_b] 5 = [0, 1] \<and>
   merged_ab ! 3 ! 0 = Num 2 \<and>
   first_non_nan [row_a ! 3 ! 0, row_b ! 3 ! 0] = Num 1 \<and>
   (case fst (notebook (file_of est_keys [row_a, row_b])) of
      Inl e \<Rightarrow> None
    | Inr nbk \<Rightarrow> (case map_of nbk 5 of None \<Rightarrow> None
                  | Some chans \<Rightarrow> dict_get (chans ! 0) ''V-Clamp Holding Level''))
     = Some (Some (Num 2))"
  by code_simp

subsection \<open>Test-pulse records at the end of the table\<close>

lemma rect_item2:
  "rect nf nc r \<Longrightarrow> f < nf \<Longrightarrow> c < nc \<Longrightarrow> item2 r f c = Inr (r ! f ! c)"
  by (auto simp: rect_def item2_def item1_def list_all_length)

lemma item2_in_range:
  "rect nf nc r \<Longrightarrow> item2 r f c = Inr x \<Longrightarrow> f < nf \<and> c < nc"
  by (auto simp: rect_def item2_def item1_def list_all_length split: if_splits)

lemma tp_last_row_step:
  assumes "Suc i = length nb"
    and "dict_get (nb_fields nb_keys) ''EntrySourceType'' = Some est"
    and "item2 (nb ! i) 0 0 = Inr x"
    and "item2 (nb ! i) est 0 = Inr src" and "isfinite src" and "\<not> np_eq src 0"
  shows "step nb_keys nb i st = Inl StopIteration"
  using assms
  by (cases src) (auto simp: step_def classify_def process_def Let_def)

text \<open>
  The guard \<open>i < nb.shape[0] - 1\<close> belongs to the legacy branch only: without a discriminant
  field the last row is taken and ignored.
\<close>

lemma legacy_last_row_ignored:
  assumes "Suc i = length nb"
    and "dict_get (nb_fields nb_keys) ''EntrySourceType'' = None"
    and "item2 (nb ! i) 0 0 = Inr x"
  shows "step nb_keys nb i st = Inr (length nb, st)"
  using assms by (auto simp: step_def classify_def process_def Let_def)

text \<open>
  C10 (as amended). When the loop takes the last row of the table (it has not been
  consumed as the second row of the test-pulse block before it) and that row carries a
  finite nonzero \<open>EntrySourceType\<close>, the test-pulse branch advances the exhausted iterator:
  \<open>notebook()\<close> raises StopIteration, produces no block and leaves the object unchanged.
\<close>

theorem tp_record_in_last_row_raises:
  assumes cache: "attr_notebook self = None"
    and nb: "nb = numericalValues (hdf self)"
    and keys: "nb_keys = numericalKeys (hdf self)"
    and wf: "list_all (rect nf nc) nb"
    and vis: "length nb - 1 \<in> set (visited nb_keys nb 0 init_scan)"
    and est: "dict_get (nb_fields nb_keys) ''EntrySourceType'' = Some est"
    and src: "item2 (nb ! (length nb - 1)) est 0 = Inr src"
    and fin: "isfinite src" and nz: "\<not> np_eq src 0"
  shows "notebook self = (Inl StopIteration, self)"
proof -
  let ?i = "length nb - 1"
  from visited_scan[OF vis] obtain st' where
    i: "?i < length nb" and sc: "scan nb_keys nb 0 init_scan = scan nb_keys nb ?i st'"
    by blast
  from wf i have r: "rect nf nc (nb ! ?i)" by (simp add: list_all_length)
  from item2_in_range[OF r src] have "0 < nf" "0 < nc" by auto
  with r have x: "item2 (nb ! ?i) 0 0 = Inr (nb ! ?i ! 0 ! 0)" by (simp add: rect_item2)
  from i have suc: "Suc ?i = length nb" by simp
  have "step nb_keys nb ?i st' = Inl StopIteration"
    by (rule tp_last_row_step[OF suc est x src fin nz])
  with i have "scan nb_keys nb ?i st' = Inl StopIteration"
    by (simp add: scan_unfold)
  with sc have "scan nb_keys nb 0 init_scan = Inl StopIteration" by simp
  with cache nb keys show ?thesis
    by (simp add: notebook_def Let_def)
qed

theorem tp_record_in_last_row_raises_witness:
  "visited est_keys [row_a, tp_a] 0 init_scan = [0, 1] \<and>
   item2 ([row_a, tp_a] ! 1) 2 0 = Inr (Num 1) \<and>
   notebook (file_of est_keys [row_a, tp_a])
     = (Inl StopIteration, file_of est_keys [row_a, tp_a])"
proof -
  let ?self = "file_of est_keys [row_a, tp_a]"
  have c: "attr_notebook ?self = None" by (simp add: file_of_def MiesNwb_init_def)
  have n: "[row_a, tp_a] = numericalValues (hdf ?self)"
    by (simp add: file_of_def MiesNwb_init_def)
  have k: "est_keys = numericalKeys (hdf ?self)"
    by (simp add: file_of_def MiesNwb_init_def)
  have wf: "list_all (rect 4 9) [row_a, tp_a]" by code_simp
  have v: "visited est_keys [row_a, tp_a] 0 init_scan = [0, 1]" by code_simp
  then have vis: "length [row_a, tp_a] - 1 \<in> set (visited est_keys [row_a, tp_a] 0 init_scan)"
    by simp
  have e: "dict_get (nb_fields est_keys) ''EntrySourceType'' = Some 2" by code_simp
  have s: "item2 ([row_a, tp_a] ! (length [row_a, tp_a] - 1)) 2 0 = Inr (Num 1)" by code_simp
  have s': "item2 ([row_a, tp_a] ! 1) 2 0 = Inr (Num 1)" by code_simp
  have "notebook ?self = (Inl StopIteration, ?self)"
    by (rule tp_record_in_last_row_raises[OF c n k wf vis e s]) simp_all
  with v s' show ?thesis by blast
qed

text \<open>
  C10 as stated fails: in the table \<open>[tp_a, tp_b]\<close> the last row carries the discriminant 1,
  but the loop never takes it: the block of row 0 consumes it as its second row. The
  call succeeds with one block, and the last row is skipped silently.
\<close>

theorem tp_record_in_last_row_counterexample:
  "item2 (last [tp_a, tp_b]) 2 0 = Inr (Num 1) \<and>
   visited est_keys [tp_a, tp_b] 0 init_scan = [0] \<and>
   notebook (file_of est_keys [tp_a, tp_b])
     = (Inr [],
        (file_of est_keys [tp_a, tp_b])
          \<lparr>attr_notebook := Some [], attr_tp_notebook := Some [tp_ab],
           attr_notebook_keys := Some (nb_fields est_keys),
           attr_tp_entries := Some None\<rparr>)"
  by code_simp

subsection \<open>Test-pulse pairs of older files\<close>

text \<open>
  What the legacy branch does with a pair found at row \<open>i\<close>: the iterator is advanced in
  the classification and once more in the test-pulse branch, so rows \<open>i + 1\<close> and \<open>i + 2\<close>
  are both skipped, and the call fails when row \<open>i + 2\<close> does not exist.
\<close>

lemma legacy_pair_step:
  assumes "classify nb_keys nb i = Inr (TPRecord, i + 2)" and "i + 1 < length nb"
  shows "step nb_keys nb i st =
    (if i + 2 < length nb
     then Inr (i + 3, st\<lparr>tp_entries := tp_entries st @ [overlay (nb ! i) (nb ! (i + 1))]\<rparr>)
     else Inl StopIteration)"
  using assms by (auto simp: step_def process_def item1_def)

text \<open>
  C2, at a failing input. The table has no discriminant field; row 0 has a finite
  "TP Peak Resistance" and row 1 a finite "TP Pulse Duration". One block is merged from
  rows 0 and 1, but the loop resumes at row 3: row 2, a sweep record of sweep 6 when
  taken, is skipped as well and sweep 6 is lost. With the pair in the last two rows the
  call raises StopIteration and produces no block.
\<close>

theorem legacy_pair_skips_two_rows:
  "visited legacy_keys [leg_peak, leg_dur, leg_sweep6, leg_sweep7, leg_sweep7] 0 init_scan
     = [0, 3, 4] \<and>
   is_sweep_row legacy_keys [leg_peak, leg_dur, leg_sweep6, leg_sweep7, leg_sweep7] 2 \<and>
   scan legacy_keys [leg_peak, leg_dur, leg_sweep6, leg_sweep7, leg_sweep7] 0 init_scan
     = Inr \<lparr>sweep_entries = [(7, leg_sweep7)], tp_entries = [leg_peak_dur]\<rparr> \<and>
   notebook (file_of legacy_keys [leg_peak, leg_dur])
     = (Inl StopIteration, file_of legacy_keys [leg_peak, leg_dur])"
  by code_simp

section \<open>Properties of the date conversion\<close>

lemma epoch_1970: "datetime_ymd 1970 1 1 = 719162 * 86400000000"
  by (simp add: datetime_ymd_def ymd2ord_def days_before_year_def days_before_month_def)

lemma epoch_1904: "datetime_ymd 1904 1 1 = 695055 * 86400000000"
  by (simp add: datetime_ymd_def ymd2ord_def days_before_year_def days_before_month_def)

lemma datetime_min_0: "datetime_min = 0"
  by (simp add: datetime_min_def datetime_ymd_def ymd2ord_def days_before_year_def days_before_month_def)

lemma round_half_away_bound: "\<bar>of_int (round_half_away x) - x\<bar> \<le> 1 / 2"
proof (cases "0 \<le> x")
  case True
  then have "round_half_away x = \<lfloor>x + 1 / 2\<rfloor>" by (simp add: round_half_away_def)
  then show ?thesis by linarith
next
  case False
  then have "round_half_away x = \<lceil>x - 1 / 2\<rceil>" by (simp add: round_half_away_def)
  then show ?thesis by linarith
qed

lemma timestamp_micros_bound: "\<bar>of_int (timestamp_micros t) - t * 1000000\<bar> \<le> 1 / 2"
proof -
  have "of_int (timestamp_micros t) - t * 1000000 =
        of_int (round_half_away ((t - of_int (trunc t)) * 1000000))
          - (t - of_int (trunc t)) * 1000000"
    by (simp add: timestamp_micros_def algebra_simps)
  then show ?thesis by (simp only: round_half_away_bound)
qed

lemma igorpro_date_Num:
  "igorpro_date (Num t) =
    (if datetime_min \<le> datetime_ymd 1970 1 1 + timestamp_micros t \<and>
        datetime_ymd 1970 1 1 + timestamp_micros t \<le> datetime_max
     then (if datetime_min \<le> datetime_ymd 1904 1 1 + timestamp_micros t
           then Inr (datetime_ymd 1904 1 1 + timestamp_micros t) else Inl OverflowError)
     else Inl ValueError)"
  by (auto simp: igorpro_date_def utcfromtimestamp_def datetime_minus_def Let_def
       epoch_1970 epoch_1904 datetime_min_0)

text \<open>
  C5. \<open>igorpro_date\<close> maps a timestamp \<open>t\<close> (seconds since 1904-01-01) to the datetime
  1904-01-01T00:00:00 plus \<open>t\<close> seconds, at the microsecond resolution of \<open>datetime\<close>: the
  result is the 1904 epoch plus the microseconds of \<open>t\<close>, which differ from \<open>t\<close> by at most
  half a microsecond; only the constant offset between the two epochs is used (no time
  zone enters), the call succeeds whenever the dates involved lie in the years 1 to 9999,
  and timestamp 0 maps to 1904-01-01T00:00:00 exactly.
\<close>

theorem igorpro_date_epoch_1904:
  "igorpro_date (Num 0) = Inr (datetime_ymd 1904 1 1) \<and>
   (\<forall>t d. igorpro_date (Num t) = Inr d \<longrightarrow> d = datetime_ymd 1904 1 1 + timestamp_micros t) \<and>
   (\<forall>t. datetime_min \<le> datetime_ymd 1904 1 1 + timestamp_micros t \<and>
        datetime_ymd 1970 1 1 + timestamp_micros t \<le> datetime_max \<longrightarrow>
        igorpro_date (Num t) = Inr (datetime_ymd 1904 1 1 + timestamp_micros t)) \<and>
   (\<forall>t. \<bar>of_int (timestamp_micros t) - t * 1000000\<bar> \<le> 1 / 2)"
proof -
  have z: "timestamp_micros 0 = 0"
    by (simp add: timestamp_micros_def trunc_def round_half_away_def)
  have 1: "igorpro_date (Num 0) = Inr (datetime_ymd 1904 1 1)"
    by (simp add: igorpro_date_Num z epoch_1970 epoch_1904 datetime_min_0 datetime_max_def
          datetime_ymd_def ymd2ord_def days_before_year_def days_before_month_def)
  have 2: "d = datetime_ymd 1904 1 1 + timestamp_micros t"
    if "igorpro_date (Num t) = Inr d" for t d
    using that by (simp add: igorpro_date_Num split: if_splits)
  have 3: "igorpro_date (Num t) = Inr (datetime_ymd 1904 1 1 + timestamp_micros t)"
    if "datetime_min \<le> datetime_ymd 1904 1 1 + timestamp_micros t \<and>
        datetime_ymd 1970 1 1 + timestamp_micros t \<le> datetime_max" for t
    using that by (simp add: igorpro_date_Num epoch_1970 epoch_1904)
  from 1 2 3 timestamp_micros_bound show ?thesis by blast
qed

theorem igorpro_date_epoch_1904_witness:
  "datetime_min \<le> datetime_ymd 1904 1 1 + timestamp_micros (7201 / 2) \<and>
   datetime_ymd 1970 1 1 + timestamp_micros (7201 / 2) \<le> datetime_max \<and>
   timestamp_micros (7201 / 2) = 3600500000 \<and>
   igorpro_date (Num (7201 / 2)) = Inr (datetime_ymd 1904 1 1 + 3600500000)"
proof -
  have m: "timestamp_micros (7201 / 2) = 3600500000"
    by (simp add: timestamp_micros_def trunc_def round_half_away_def)
  have h: "datetime_min \<le> datetime_ymd 1904 1 1 + timestamp_micros (7201 / 2) \<and>
           datetime_ymd 1970 1 1 + timestamp_micros (7201 / 2) \<le> datetime_max"
    by (simp add: m epoch_1970 epoch_1904 datetime_min_0 datetime_max_def
          datetime_ymd_def ymd2ord_def days_before_year_def days_before_month_def)
  from igorpro_date_epoch_1904 h
  have "igorpro_date (Num (7201 / 2)) = Inr (datetime_ymd 1904 1 1 + timestamp_micros (7201 / 2))"
    by blast
  with h m show ?thesis by simp
qed

section \<open>Properties of recordings\<close>

lemma MiesRecording_init_offset:
  assumes "MiesRecording_init nbk sweep_id headstage_id ws = Inr r"
  shows "dict_item (rec_notebook r) ''LPF Cutoff'' = Inr (lpf_cutoff r) \<and>
         (\<exists>offset. dict_item (rec_notebook r) ''Pipette Offset'' = Inr offset \<and>
                   pipette_offset r = scaled offset (1 / 1000))"
  using assms
  by (simp add: MiesRecording_init_def split: option.splits sum.splits) auto

text \<open>
  C8 (as amended). For every recording that is constructed, \<open>lpf_cutoff\<close> is the raw
  "LPF Cutoff" value of the notebook, copied without scaling, and \<open>pipette_offset\<close> is the
  raw "Pipette Offset" scaled by 1e-3; an unset value (None in the notebook dictionary,
  NaN in the table) gives None for either, not a failure.
\<close>

theorem recording_lpf_and_pipette_offset:
  assumes "MiesRecording_init nbk sweep_id headstage_id ws = Inr r"
  shows "dict_item (rec_notebook r) ''LPF Cutoff'' = Inr (lpf_cutoff r) \<and>
         (dict_item (rec_notebook r) ''Pipette Offset'' = Inr None \<and> pipette_offset r = None \<or>
          (\<exists>x. dict_item (rec_notebook r) ''Pipette Offset'' = Inr (Some x) \<and>
               pipette_offset r = Some (np_mul x (Num (1 / 1000)))))"
proof -
  from MiesRecording_init_offset[OF assms] obtain offset where
    l: "dict_item (rec_notebook r) ''LPF Cutoff'' = Inr (lpf_cutoff r)"
    and o: "dict_item (rec_notebook r) ''Pipette Offset'' = Inr offset"
    and p: "pipette_offset r = scaled offset (1 / 1000)"
    by blast
  show ?thesis
  proof (cases offset)
    case None
    with l o p show ?thesis by (simp add: scaled_def)
  next
    case (Some x)
    with l o p show ?thesis by (simp add: scaled_def)
  qed
qed


theorem recording_lpf_and_pipette_offset_witness:
  "MiesRecording_init example_notebook 5 0 (Num (1 / 10)) = Inr (example_recording (1 / 10)) \<and>
   dict_item example_meta ''LPF Cutoff'' = Inr (Some (Num 10)) \<and>
   lpf_cutoff (example_recording (1 / 10)) = Some (Num 10) \<and>
   dict_item example_meta ''Pipette Offset'' = Inr (Some (Num 2)) \<and>
   pipette_offset (example_recording (1 / 10)) = Some (np_mul (Num 2) (Num (1 / 1000))) \<and>
   MiesRecording_init [(5, replicate 9 unset_meta)] 5 0 (Num (1 / 10)) = Inr unset_recording \<and>
   dict_item unset_meta ''LPF Cutoff'' = Inr None \<and>
   lpf_cutoff unset_recording = None \<and>
   dict_item unset_meta ''Pipette Offset'' = Inr None \<and>
   pipette_offset unset_recording = None"
proof -
  have ui: "MiesRecording_init [(5, replicate 9 unset_meta)] 5 0 (Num (1 / 10))
              = Inr unset_recording" by code_simp
  have un: "rec_notebook unset_recording = unset_meta" by (simp add: unset_recording_def)
  have ul: "dict_item unset_meta ''LPF Cutoff'' = Inr None" by code_simp
  have uo: "dict_item unset_meta ''Pipette Offset'' = Inr None" by code_simp
  from recording_lpf_and_pipette_offset[OF ui] un ul uo
  have u: "lpf_cutoff unset_recording = None \<and> pipette_offset unset_recording = None"
    by simp
  let ?r = "example_recording (1 / 10)"
  have i: "MiesRecording_init example_notebook 5 0 (Num (1 / 10)) = Inr ?r" by code_simp
  have n: "rec_notebook ?r = example_meta" by (simp add: example_recording_def)
  have l: "dict_item example_meta ''LPF Cutoff'' = Inr (Some (Num 10))" by code_simp
  have o: "dict_item example_meta ''Pipette Offset'' = Inr (Some (Num 2))" by code_simp
  from recording_lpf_and_pipette_offset[OF i] n l o
  have "lpf_cutoff ?r = Some (Num 10) \<and>
        pipette_offset ?r = Some (np_mul (Num 2) (Num (1 / 1000)))"
    by simp
  with i l o ui ul uo u show ?thesis by simp
qed

text \<open>
  C8 as stated fails for \<open>lpf_cutoff\<close>: the raw value 10 is stored as 10, not as 10 scaled
  by 1e-3.
\<close>

theorem recording_lpf_scaled_counterexample:
  "MiesRecording_init example_notebook 5 0 (Num (1 / 10)) = Inr (example_recording (1 / 10)) \<and>
   dict_item (rec_notebook (example_recording (1 / 10))) ''LPF Cutoff'' = Inr (Some (Num 10)) \<and>
   lpf_cutoff (example_recording (1 / 10)) = Some (Num 10) \<and>
   lpf_cutoff (example_recording (1 / 10)) \<noteq> scaled (Some (Num 10)) (1 / 1000)"
  by code_simp

subsection \<open>Rounding to a double\<close>

lemma bitlen_pos: "0 < n \<Longrightarrow> 1 \<le> bitlen n"
  by (simp add: bitlen_alt_def)

lemma int_pow_le_real: "(2::int) ^ k \<le> n \<Longrightarrow> (2::real) ^ k \<le> of_int n"
proof -
  assume "(2::int) ^ k \<le> n"
  then have "(of_int ((2::int) ^ k) :: real) \<le> of_int n" by (simp only: of_int_le_iff)
  then show ?thesis by simp
qed

lemma int_lt_pow_real: "n < (2::int) ^ k \<Longrightarrow> of_int n + 1 \<le> (2::real) ^ k"
proof -
  assume "n < (2::int) ^ k"
  then have "n + 1 \<le> (2::int) ^ k" by simp
  then have "(of_int (n + 1) :: real) \<le> of_int ((2::int) ^ k)" by (simp only: of_int_le_iff)
  then show ?thesis by simp
qed

lemma bitlen_real_bounds:
  assumes "0 < n"
  shows "(2::real) ^ nat (bitlen n - 1) \<le> of_int n"
    and "of_int n + 1 \<le> (2::real) ^ nat (bitlen n)"
proof -
  from bitlen_bounds[OF assms] have "2 ^ nat (bitlen n - 1) \<le> n" and "n < 2 ^ nat (bitlen n)"
    by (rule conjunct1, rule conjunct2)
  then show "(2::real) ^ nat (bitlen n - 1) \<le> of_int n"
    and "of_int n + 1 \<le> (2::real) ^ nat (bitlen n)"
    by (simp_all only: int_pow_le_real int_lt_pow_real)
qed

lemma binade_ge1:
  assumes "1 \<le> x"
  shows "pow2 (binade x) \<le> x \<and> x < pow2 (binade x + 1)"
proof -
  have n: "0 < \<lfloor>x\<rfloor>" using assms by simp
  have k: "1 \<le> bitlen \<lfloor>x\<rfloor>" using n by (rule bitlen_pos)
  have "of_int \<lfloor>x\<rfloor> \<le> x" "x < of_int \<lfloor>x\<rfloor> + 1" by linarith+
  with bitlen_real_bounds[OF n]
  have "(2::real) ^ nat (bitlen \<lfloor>x\<rfloor> - 1) \<le> x" "x < (2::real) ^ nat (bitlen \<lfloor>x\<rfloor>)"
    by linarith+
  with assms k show ?thesis by (simp add: binade_def pow2_def)
qed

lemma binade_lt1:
  assumes "0 < x" and "x < 1"
  shows "pow2 (binade x) \<le> x \<and> x < pow2 (binade x + 1)"
proof -
  define n where "n = \<lceil>1 / x\<rceil> - 1"
  define k where "k = bitlen n"
  from assms have y: "1 < 1 / x" by simp
  have c: "of_int n < 1 / x" "1 / x \<le> of_int n + 1" unfolding n_def by linarith+
  from y c(2) have "0 < (of_int n :: real)" by linarith
  then have n: "0 < n" by simp
  have k1: "1 \<le> k" unfolding k_def using n by (rule bitlen_pos)
  from bitlen_real_bounds[OF n] c
  have lo: "(2::real) ^ nat (k - 1) < 1 / x" and hi: "1 / x \<le> (2::real) ^ nat k"
    unfolding k_def by linarith+
  from hi assms(1) have 1: "1 / 2 ^ nat k \<le> x"
    by (simp add: field_simps)
  from lo assms(1) have 2: "x < 1 / 2 ^ nat (k - 1)"
    by (simp add: field_simps)
  have e: "binade x = - k" using assms(2) by (simp add: binade_def k_def n_def)
  show ?thesis
  proof (cases "k = 1")
    case True
    with 1 2 show ?thesis unfolding e by (simp add: pow2_def)
  next
    case False
    with k1 have "1 < k" by simp
    with 1 2 show ?thesis unfolding e by (simp add: pow2_def)
  qed
qed

text \<open>\<open>binade\<close> is the exponent of the binade.\<close>

lemma binade_bounds:
  "0 < x \<Longrightarrow> pow2 (binade x) \<le> x \<and> x < pow2 (binade x + 1)"
  by (cases "1 \<le> x") (simp_all add: binade_ge1 binade_lt1)

lemma round_half_even_bound: "\<bar>of_int (round_half_even r) - r\<bar> \<le> 1 / 2"
  unfolding round_half_even_def Let_def by (auto simp: abs_le_iff)

lemma pow2_pos: "0 < pow2 k"
  by (simp add: pow2_def)

text \<open>
  A finite result of \<open>double\<close> is a whole multiple of the spacing of the doubles at the
  magnitude of the argument, and lies within half that spacing of the argument.
\<close>

lemma double_half_spacing:
  assumes "double x = Num v"
  shows "\<exists>m. v = of_int m * pow2 (max (binade \<bar>x\<bar>) (- 1022) - 52) \<and>
             \<bar>v - x\<bar> \<le> pow2 (max (binade \<bar>x\<bar>) (- 1022) - 52) / 2"
proof (cases "x = 0")
  case True
  with assms have "v = 0" by (simp add: double_def)
  with True show ?thesis
    by (intro exI[of _ 0]) (simp add: less_imp_le[OF pow2_pos])
next
  case False
  define p where "p = pow2 (max (binade \<bar>x\<bar>) (- 1022) - 52)"
  define m where "m = round_half_even (x / p)"
  have p: "0 < p" unfolding p_def by (rule pow2_pos)
  from assms False have v: "v = of_int m * p"
    by (simp add: double_def Let_def p_def m_def signed_inf_def split: if_splits)
  have "\<bar>of_int m - x / p\<bar> \<le> 1 / 2" unfolding m_def by (rule round_half_even_bound)
  then have "\<bar>of_int m - x / p\<bar> * p \<le> 1 / 2 * p"
    using p by (simp only: mult_le_cancel_right_pos)
  moreover have "\<bar>of_int m - x / p\<bar> * p = \<bar>of_int m * p - x\<bar>"
  proof -
    have "(of_int m - x / p) * p = of_int m * p - x" using p by (simp add: field_simps)
    moreover have "\<bar>of_int m - x / p\<bar> * p = \<bar>(of_int m - x / p) * p\<bar>"
      using p by (simp add: abs_mult)
    ultimately show ?thesis by (simp only:)
  qed
  ultimately have "\<bar>v - x\<bar> \<le> p / 2" by (simp add: v)
  with v show ?thesis unfolding p_def by (intro exI[of _ m] conjI)
qed

lemma round_half_even_nearest:
  "\<bar>of_int (round_half_even r) - r\<bar> \<le> \<bar>of_int k - r\<bar>"
proof -
  define f where "f = \<lfloor>r\<rfloor>"
  have fl: "of_int f \<le> r" "r < of_int f + 1" unfolding f_def by linarith+
  have k: "k \<le> f \<or> f + 1 \<le> k" by linarith
  then have kr: "of_int k \<le> (of_int f :: real) \<or> (of_int f :: real) + 1 \<le> of_int k"
  proof
    assume "k \<le> f"
    then have "(of_int k :: real) \<le> of_int f" by (simp only: of_int_le_iff)
    then show ?thesis ..
  next
    assume "f + 1 \<le> k"
    then have "(of_int (f + 1) :: real) \<le> of_int k" by (simp only: of_int_le_iff)
    then have "(of_int f :: real) + 1 \<le> of_int k" by simp
    then show ?thesis ..
  qed
  have m: "round_half_even r = (if r - of_int f < 1 / 2 then f else if 1 / 2 < r - of_int f
       then f + 1 else if even f then f else f + 1)"
    by (simp add: round_half_even_def Let_def f_def)
  from kr show ?thesis
  proof
    assume a: "of_int k \<le> (of_int f :: real)"
    have "\<bar>of_int f - r\<bar> \<le> \<bar>of_int k - r\<bar>" "\<bar>of_int f + 1 - r\<bar> \<le> 1 / 2 \<Longrightarrow> \<bar>of_int f + 1 - r\<bar> \<le> \<bar>of_int k - r\<bar>"
      using a fl by linarith+
    then show ?thesis unfolding m using fl by (auto simp: abs_if)
  next
    assume a: "(of_int f :: real) + 1 \<le> of_int k"
    have "\<bar>of_int f + 1 - r\<bar> \<le> \<bar>of_int k - r\<bar>" "\<bar>of_int f - r\<bar> \<le> 1 / 2 \<Longrightarrow> \<bar>of_int f - r\<bar> \<le> \<bar>of_int k - r\<bar>"
      using a fl by linarith+
    then show ?thesis unfolding m using fl by (auto simp: abs_if)
  qed
qed


lemma abs_scale: "0 < (p::real) \<Longrightarrow> \<bar>a - x / p\<bar> * p = \<bar>a * p - x\<bar>"
proof -
  assume p: "0 < p"
  have "(a - x / p) * p = a * p - x" using p by (simp add: field_simps)
  moreover have "\<bar>a - x / p\<bar> * p = \<bar>(a - x / p) * p\<bar>"
    using p by (simp add: abs_mult)
  ultimately show ?thesis by (simp only:)
qed

text \<open>
  A finite result of \<open>double\<close> is a nearest point of the grid of the doubles at the
  magnitude of the argument: no whole multiple of the spacing is nearer.
\<close>

lemma double_nearest:
  assumes "double x = Num v"
  shows "\<bar>v - x\<bar> \<le> \<bar>of_int k * pow2 (max (binade \<bar>x\<bar>) (- 1022) - 52) - x\<bar>"
proof (cases "x = 0")
  case True
  with assms have "v = 0" by (simp add: double_def)
  with True show ?thesis by simp
next
  case False
  define p where "p = pow2 (max (binade \<bar>x\<bar>) (- 1022) - 52)"
  define m where "m = round_half_even (x / p)"
  have p: "0 < p" unfolding p_def by (rule pow2_pos)
  from assms False have v: "v = of_int m * p"
    by (simp add: double_def Let_def p_def m_def signed_inf_def split: if_splits)
  have "\<bar>of_int m - x / p\<bar> \<le> \<bar>of_int k - x / p\<bar>"
    unfolding m_def by (rule round_half_even_nearest)
  then have "\<bar>of_int m - x / p\<bar> * p \<le> \<bar>of_int k - x / p\<bar> * p"
    using p by (simp only: mult_le_cancel_right_pos)
  then have "\<bar>of_int m * p - x\<bar> \<le> \<bar>of_int k * p - x\<bar>"
    by (simp only: abs_scale[OF p])
  then show ?thesis by (simp only: v p_def)
qed

subsection \<open>The window of the inserted test pulse\<close>

lemma inserted_window_value:
  assumes "num_item (rec_notebook self) ''TP Pulse Duration'' = Inr pd"
    and "num_item (rec_notebook self) ''TP Baseline Fraction'' = Inr bf"
    and "clamp_mode self = Inr mode"
    and "num_item (rec_notebook self)
           (if mode = VC then ''TP Amplitude VC'' else ''TP Amplitude IC'') = Inr amp"
    and "dbl_div (total_duration (dbl_div pd (Num 1000)) bf) (primary_dt self) = Num q"
  shows "inserted_window self = Inr \<lparr>indices = (0, trunc q)\<rparr>"
  using assms
  by (simp add: inserted_window_def Let_def total_duration_def baseline_duration_def)

text \<open>
  C4 (as amended). For a recording with \<open>has_inserted_test_pulse\<close> true, whose pulse
  duration \<open>pd\<close> (in milliseconds) and baseline fraction \<open>bf\<close> are set, with the amplitude
  field of its clamp mode set, the first access binds the inserted test pulse to the
  window \<open>[0, int(total_duration / dt))\<close>, where \<open>baseline_duration = pulse_duration /
  (1 - 2 * baseline_fraction)\<close>, \<open>total_duration = pulse_duration + 2 * baseline_duration\<close>
  and \<open>pulse_duration = pd / 1000\<close> are computed in doubles, the quotient \<open>q\<close> by the sample
  interval is a finite double, and \<open>int\<close> truncates it towards zero (it does not round).
  With 10 ms, 0.25 and the sample interval of 0.1 ms the window is \<open>[0, 500)\<close>.
\<close>

theorem inserted_test_pulse_window:
  assumes "attr_inserted_test_pulse self = None"
    and "has_inserted_test_pulse self = Inr True"
    and "num_item (rec_notebook self) ''TP Pulse Duration'' = Inr pd"
    and "num_item (rec_notebook self) ''TP Baseline Fraction'' = Inr bf"
    and "clamp_mode self = Inr mode"
    and "num_item (rec_notebook self)
           (if mode = VC then ''TP Amplitude VC'' else ''TP Amplitude IC'') = Inr amp"
    and "dbl_div (total_duration (dbl_div pd (Num 1000)) bf) (primary_dt self) = Num q"
  shows "inserted_test_pulse self =
     (Inr (Some \<lparr>indices = (0, trunc q)\<rparr>),
      self\<lparr>attr_inserted_test_pulse := Some \<lparr>indices = (0, trunc q)\<rparr>\<rparr>)"
  using assms(1,2) inserted_window_value[OF assms(3-7)]
  by (simp add: inserted_test_pulse_def)

theorem inserted_test_pulse_window_witness:
  "has_inserted_test_pulse (window_recording (dbl_div (double (1 / 10)) (Num 1000))) = Inr True \<and>
   baseline_duration (dbl_div (Num 10) (Num 1000)) (Num (1 / 4)) = double (20 / 1000) \<and>
   total_duration (dbl_div (Num 10) (Num 1000)) (Num (1 / 4)) = double (50 / 1000) \<and>
   dbl_div (total_duration (dbl_div (Num 10) (Num 1000)) (Num (1 / 4)))
           (dbl_div (double (1 / 10)) (Num 1000)) = Num 500 \<and>
   inserted_test_pulse (window_recording (dbl_div (double (1 / 10)) (Num 1000))) =
     (Inr (Some \<lparr>indices = (0, 500)\<rparr>),
      (window_recording (dbl_div (double (1 / 10)) (Num 1000)))
        \<lparr>attr_inserted_test_pulse := Some \<lparr>indices = (0, 500)\<rparr>\<rparr>)"
proof -
  let ?r = "window_recording (dbl_div (double (1 / 10)) (Num 1000))"
  have 1: "attr_inserted_test_pulse ?r = None"
    by (simp add: window_recording_def example_recording_def)
  have 2: "has_inserted_test_pulse ?r = Inr True" by code_simp
  have 3: "num_item (rec_notebook ?r) ''TP Pulse Duration'' = Inr (Num 10)" by code_simp
  have 4: "num_item (rec_notebook ?r) ''TP Baseline Fraction'' = Inr (Num (1 / 4))"
    by code_simp
  have 5: "clamp_mode ?r = Inr VC" by code_simp
  have 6: "num_item (rec_notebook ?r)
           (if VC = VC then ''TP Amplitude VC'' else ''TP Amplitude IC'') = Inr (Num 10)"
    by code_simp
  have d: "primary_dt ?r = dbl_div (double (1 / 10)) (Num 1000)"
    by (simp add: window_recording_def)
  have q: "dbl_div (total_duration (dbl_div (Num 10) (Num 1000)) (Num (1 / 4)))
                   (dbl_div (double (1 / 10)) (Num 1000)) = Num 500"
    by code_simp
  from q d have 7: "dbl_div (total_duration (dbl_div (Num 10) (Num 1000)) (Num (1 / 4)))
                   (primary_dt ?r) = Num 500"
    by (simp only:)
  have b: "baseline_duration (dbl_div (Num 10) (Num 1000)) (Num (1 / 4)) = double (20 / 1000)"
    by code_simp
  have t: "total_duration (dbl_div (Num 10) (Num 1000)) (Num (1 / 4)) = double (50 / 1000)"
    by code_simp
  have tr: "trunc 500 = 500" by (simp add: trunc_def)
  from inserted_test_pulse_window[OF 1 2 3 4 5 6 7] tr
  have "inserted_test_pulse ?r =
     (Inr (Some \<lparr>indices = (0, 500)\<rparr>),
      ?r\<lparr>attr_inserted_test_pulse := Some \<lparr>indices = (0, 500)\<rparr>\<rparr>)"
    by (simp only:)
  with 2 b t q show ?thesis by (intro conjI)
qed

text \<open>
  The rounding of the doubles matters to the window: with the baseline fraction 0.1 the
  quotient by the sample interval of 0.1 ms is just below 350, and the stop index is 349.
\<close>

lemma window_stop_below_350:
  "fst (inserted_test_pulse
          (fraction_recording (double (1 / 10)) (dbl_div (double (1 / 10)) (Num 1000))))
     = Inr (Some \<lparr>indices = (0, 349)\<rparr>)"
  by code_simp

text \<open>
  C4 as stated fails: with a sample interval of 0.03 ms the quotient is 1666.67; the stop
  index is 1666, rounding would give 1667 (for the quotient of the doubles as for the
  exact quotient of the formula).
\<close>

theorem inserted_test_pulse_round_counterexample:
  "has_inserted_test_pulse (window_recording (dbl_div (double (3 / 100)) (Num 1000))) = Inr True \<and>
   fst (inserted_test_pulse (window_recording (dbl_div (double (3 / 100)) (Num 1000))))
     = Inr (Some \<lparr>indices = (0, 1666)\<rparr>) \<and>
   (case dbl_div (total_duration (dbl_div (Num 10) (Num 1000)) (Num (1 / 4)))
                 (dbl_div (double (3 / 100)) (Num 1000))
    of Num q \<Rightarrow> round q | _ \<Rightarrow> (0 :: int)) = 1667 \<and>
   round ((10 / 1000 + 2 * (10 / 1000 / (1 - 2 * (1 / 4)))) / (3 / 100 / 1000) :: real)
     = (1667 :: int)"
proof -
  have "has_inserted_test_pulse (window_recording (dbl_div (double (3 / 100)) (Num 1000)))
          = Inr True"
    by code_simp
  moreover have "fst (inserted_test_pulse
                        (window_recording (dbl_div (double (3 / 100)) (Num 1000))))
     = Inr (Some \<lparr>indices = (0, 1666)\<rparr>)"
    by code_simp
  moreover have "(case dbl_div (total_duration (dbl_div (Num 10) (Num 1000)) (Num (1 / 4)))
                 (dbl_div (double (3 / 100)) (Num 1000))
    of Num q \<Rightarrow> round q | _ \<Rightarrow> (0 :: int)) = 1667"
    by code_simp
  moreover have
    "round ((10 / 1000 + 2 * (10 / 1000 / (1 - 2 * (1 / 4)))) / (3 / 100 / 1000) :: real)
       = (1667 :: int)"
    by (simp add: round_def)
  ultimately show ?thesis by (intro conjI)
qed

text \<open>
  C3, at a failing input: "Delay onset auto" 50 ms, "Delay onset user" 100 ms, sample
  interval 0.02 ms. The onset region starts at \<open>int(start / dt) = 2500\<close>, but its stop is
  \<open>int(start + dur / dt) = 5000\<close>: the seconds of \<open>start\<close> are added to a number of samples.
  The stop of the claim, \<open>(start + dur) / dt\<close>, is 7500.
\<close>

theorem onset_region_stop_precedence:
  "MiesRecording_init example_notebook 5 0 (Num (1 / 50)) = Inr (example_recording (1 / 50)) \<and>
   primary_dt (example_recording (1 / 50)) = Num (1 / 50000) \<and>
   baseline_regions (example_recording (1 / 50)) = Inr [(2500, Some 5000)] \<and>
   trunc (50 / 1000 / (1 / 50000)) = 2500 \<and>
   trunc ((50 / 1000 + 100 / 1000) / (1 / 50000)) = 7500 \<and>
   trunc (50 / 1000 + 100 / 1000 / (1 / 50000)) = 5000"
proof -
  have "MiesRecording_init example_notebook 5 0 (Num (1 / 50)) = Inr (example_recording (1 / 50))"
    by code_simp
  moreover have "primary_dt (example_recording (1 / 50)) = Num (1 / 50000)"
    by (simp add: example_recording_def)
  moreover have "baseline_regions (example_recording (1 / 50)) = Inr [(2500, Some 5000)]"
    by code_simp
  moreover have "trunc (50 / 1000 / (1 / 50000)) = 2500"
    "trunc ((50 / 1000 + 100 / 1000) / (1 / 50000)) = 7500"
    "trunc (50 / 1000 + 100 / 1000 / (1 / 50000)) = 5000"
    by (simp_all add: trunc_def) 
  ultimately show ?thesis by blast
qed


section \<open>Properties of standalone test pulses\<close>

lemma channel_values_keys:
  "channel_values d chan = Inr d' \<Longrightarrow> map fst d' = map fst d"
  by (induction d chan arbitrary: d' rule: channel_values.induct)
     (auto split: sum.splits)

lemma dict_item_present:
  "k \<in> set (map fst d) \<Longrightarrow> \<exists>v. dict_item d k = Inr v"
proof -
  assume "k \<in> set (map fst d)"
  then have "k \<in> fst ` set (rev d)" by simp
  then have "map_of (rev d) k \<noteq> None" by (simp add: map_of_eq_None_iff)
  then show ?thesis by (auto simp: dict_item_def dict_get_def)
qed

lemma channel_values_ok:
  "list_all (\<lambda>v. chan < length v) (map snd d) \<Longrightarrow> \<exists>d'. channel_values d chan = Inr d'"
proof (induction d)
  case Nil
  then show ?case by simp
next
  case (Cons kv d)
  obtain k v where kv: "kv = (k, v)" by (cases kv)
  from Cons.prems kv have v: "item1 v chan = Inr (v ! chan)"
    by (simp add: item1_def)
  from Cons.prems have "list_all (\<lambda>v. chan < length v) (map snd d)" by simp
  from Cons.IH[OF this] obtain d' where "channel_values d chan = Inr d'" by blast
  with v kv show ?case by simp
qed

lemma MiesTestPulse_init_ok:
  assumes "entry_ok e" and "device_id self < 8"
  shows "\<exists>tp. MiesTestPulse_init e self = Inr tp \<and> tp_start_time tp = timestamp e"
proof -
  from assms(1) have len: "list_all (\<lambda>v. length v = 8) (map snd (tp_fields e))"
    and keys: "map fst (tp_fields e) = fields_tp"
    by (simp_all only: entry_ok_def)
  from len have "\<forall>v\<in>set (map snd (tp_fields e)). length v = 8"
    by (simp only: list_all_iff)
  with assms(2) have "\<forall>v\<in>set (map snd (tp_fields e)). device_id self < length v"
    by metis
  then have "list_all (\<lambda>v. device_id self < length v) (map snd (tp_fields e))"
    by (simp only: list_all_iff)
  from channel_values_ok[OF this]
  obtain d where d: "channel_values (tp_fields e) (device_id self) = Inr d" ..
  from channel_values_keys[OF d] keys have md: "map fst d = fields_tp"
    by (simp only:)
  have "''TP Baseline Vm'' \<in> set fields_tp" by (simp add: fields_tp_def)
  with md have "''TP Baseline Vm'' \<in> set (map fst d)" by (simp only:)
  from dict_item_present[OF this]
  obtain vm where vm: "dict_item d ''TP Baseline Vm'' = Inr vm" ..
  let ?tp = "\<lparr>nb_entry = d, nb_entry_stim = stim e, tp_start_time = timestamp e,
          tp_device_id = device_id self,
          tp_clamp_mode = (if isnan vm then VC else IC)\<rparr>"
  have "MiesTestPulse_init e self = Inr ?tp"
    unfolding MiesTestPulse_init_def Let_def by (simp only: d vm sum.case)
  moreover have "tp_start_time ?tp = timestamp e" by simp
  ultimately show ?thesis by (intro exI[of _ ?tp] conjI)
qed

lemma entry_fields_keys:
  "entry_fields keys rec fs = Inr d \<Longrightarrow> map fst d = fs"
  by (induction fs arbitrary: d) (auto split: option.splits sum.splits)

text \<open>
  C7. For every test pulse built from a standalone block (an entry of
  \<open>test_pulse_entries\<close>, restricted to the channel of a recording): \<open>input_resistance\<close> is
  the scaled steady-state resistance in both modes; in voltage clamp \<open>access_resistance\<close>
  and \<open>baseline_current\<close> are the scaled peak resistance and baseline current and
  \<open>baseline_potential\<close> is None; in current clamp \<open>access_resistance\<close> and
  \<open>baseline_current\<close> are None and \<open>baseline_potential\<close> is the scaled baseline potential.
  No property raises: every result is \<open>Inr\<close>.
\<close>

theorem test_pulse_mode_gated_quantities:
  assumes "tp_entry_of keys rec = Inr entry"
    and "MiesTestPulse_init entry r = Inr tp"
  shows "(\<exists>x. dict_item (nb_entry tp) ''TP Steady State Resistance'' = Inr x \<and>
              input_resistance tp = Inr (Some (np_mul x (Num 1000000)))) \<and>
    (tp_clamp_mode tp = VC \<longrightarrow>
       (\<exists>x. dict_item (nb_entry tp) ''TP Peak Resistance'' = Inr x \<and>
            access_resistance tp = Inr (Some (np_mul x (Num 1000000)))) \<and>
       (\<exists>x. dict_item (nb_entry tp) ''TP Baseline pA'' = Inr x \<and>
            baseline_current tp = Inr (Some (np_mul x (Num (1 / 1000000000000))))) \<and>
       baseline_potential tp = Inr None) \<and>
    (tp_clamp_mode tp = IC \<longrightarrow>
       access_resistance tp = Inr None \<and>
       baseline_current tp = Inr None \<and>
       (\<exists>x. dict_item (nb_entry tp) ''TP Baseline Vm'' = Inr x \<and>
            baseline_potential tp = Inr (Some (np_mul x (Num (1 / 1000))))))"
proof -
  from assms(1) have "map fst (tp_fields entry) = fields_tp"
    by (auto simp: tp_entry_of_def split: sum.splits dest: entry_fields_keys)
  moreover from assms(2) have "map fst (nb_entry tp) = map fst (tp_fields entry)"
    by (auto simp: MiesTestPulse_init_def Let_def split: sum.splits dest: channel_values_keys)
  ultimately have k: "map fst (nb_entry tp) = fields_tp" by simp
  have "''TP Steady State Resistance'' \<in> set (map fst (nb_entry tp))"
    "''TP Peak Resistance'' \<in> set (map fst (nb_entry tp))"
    "''TP Baseline pA'' \<in> set (map fst (nb_entry tp))"
    "''TP Baseline Vm'' \<in> set (map fst (nb_entry tp))"
    unfolding k by (simp_all add: fields_tp_def)
  then obtain a b c d where
    "dict_item (nb_entry tp) ''TP Steady State Resistance'' = Inr a"
    "dict_item (nb_entry tp) ''TP Peak Resistance'' = Inr b"
    "dict_item (nb_entry tp) ''TP Baseline pA'' = Inr c"
    "dict_item (nb_entry tp) ''TP Baseline Vm'' = Inr d"
    by (meson dict_item_present)
  then show ?thesis
    by (simp add: input_resistance_def access_resistance_def baseline_current_def
          baseline_potential_def)
qed

theorem test_pulse_mode_gated_quantities_witness:
  "tp_entry_of (Some (nb_fields tp_keys)) (tpf_ab 3000) = Inr (example_entry 3000) \<and>
   MiesTestPulse_init (example_entry 3000) (no_pulse_recording 0) = Inr vc_pulse \<and>
   MiesTestPulse_init (example_entry 3000) (no_pulse_recording 1) = Inr ic_pulse \<and>
   tp_clamp_mode vc_pulse = VC \<and> tp_clamp_mode ic_pulse = IC \<and>
   access_resistance vc_pulse = Inr (Some (np_mul (Num 12) (Num 1000000))) \<and>
   baseline_current vc_pulse = Inr (Some (np_mul (Num 20) (Num (1 / 1000000000000)))) \<and>
   baseline_potential vc_pulse = Inr None \<and>
   input_resistance vc_pulse = Inr (Some (np_mul (Num 150) (Num 1000000))) \<and>
   access_resistance ic_pulse = Inr None \<and>
   baseline_current ic_pulse = Inr None \<and>
   baseline_potential ic_pulse = Inr (Some (np_mul (Num (- 65)) (Num (1 / 1000)))) \<and>
   input_resistance ic_pulse = Inr (Some (np_mul (Num 200) (Num 1000000)))"
proof -
  have e: "tp_entry_of (Some (nb_fields tp_keys)) (tpf_ab 3000) = Inr (example_entry 3000)"
    by code_simp
  have v: "MiesTestPulse_init (example_entry 3000) (no_pulse_recording 0) = Inr vc_pulse"
    by code_simp
  have i: "MiesTestPulse_init (example_entry 3000) (no_pulse_recording 1) = Inr ic_pulse"
    by code_simp
  have mv: "tp_clamp_mode vc_pulse = VC" by (simp add: vc_pulse_def)
  have mi: "tp_clamp_mode ic_pulse = IC" by (simp add: ic_pulse_def)
  have dv: "dict_item (nb_entry vc_pulse) ''TP Steady State Resistance'' = Inr (Num 150)"
    "dict_item (nb_entry vc_pulse) ''TP Peak Resistance'' = Inr (Num 12)"
    "dict_item (nb_entry vc_pulse) ''TP Baseline pA'' = Inr (Num 20)"
    by code_simp+
  have di: "dict_item (nb_entry ic_pulse) ''TP Steady State Resistance'' = Inr (Num 200)"
    "dict_item (nb_entry ic_pulse) ''TP Baseline Vm'' = Inr (Num (- 65))"
    by code_simp+
  from test_pulse_mode_gated_quantities[OF e v] mv dv
  have 1: "access_resistance vc_pulse = Inr (Some (np_mul (Num 12) (Num 1000000))) \<and>
   baseline_current vc_pulse = Inr (Some (np_mul (Num 20) (Num (1 / 1000000000000)))) \<and>
   baseline_potential vc_pulse = Inr None \<and>
   input_resistance vc_pulse = Inr (Some (np_mul (Num 150) (Num 1000000)))"
    by simp
  from test_pulse_mode_gated_quantities[OF e i] mi di
  have 2: "access_resistance ic_pulse = Inr None \<and>
   baseline_current ic_pulse = Inr None \<and>
   baseline_potential ic_pulse = Inr (Some (np_mul (Num (- 65)) (Num (1 / 1000)))) \<and>
   input_resistance ic_pulse = Inr (Some (np_mul (Num 200) (Num 1000000)))"
    by simp
  from e v i mv mi 1 2 show ?thesis by simp
qed

section \<open>Properties of the nearest test pulse\<close>

lemma first_min_here:
  assumes "\<forall>x\<in>set es. time_distance start r \<le> time_distance start x"
  shows "first_min start (r # es) r"
  unfolding first_min_def
proof (intro exI conjI)
  show "r # es = [] @ r # es" by simp
  show "\<forall>e\<in>set []. time_distance start r < time_distance start e" by simp
  show "\<forall>e\<in>set es. time_distance start r \<le> time_distance start e" by (rule assms)
qed

lemma first_min_later:
  assumes "first_min start es r" and "time_distance start r < time_distance start e"
  shows "first_min start (e # es) r"
proof -
  from assms(1) obtain pre post where p: "es = pre @ r # post"
    "\<forall>x\<in>set pre. time_distance start r < time_distance start x"
    "\<forall>x\<in>set post. time_distance start r \<le> time_distance start x"
    unfolding first_min_def by blast
  show ?thesis unfolding first_min_def
  proof (intro exI conjI)
    show "e # es = (e # pre) @ r # post" using p(1) by simp
    show "\<forall>x\<in>set (e # pre). time_distance start r < time_distance start x"
      using p(2) assms(2) by simp
    show "\<forall>x\<in>set post. time_distance start r \<le> time_distance start x" by (rule p(3))
  qed
qed

lemma nearest_loop_acc:
  "\<exists>r. nearest_loop start es (Some (time_distance start n)) (Some n) = Some r \<and>
     ((r = n \<and> (\<forall>e\<in>set es. time_distance start n \<le> time_distance start e)) \<or>
      (first_min start es r \<and> time_distance start r < time_distance start n))"
proof (induction es arbitrary: n)
  case Nil
  then show ?case by simp
next
  case (Cons e es)
  show ?case
  proof (cases "time_distance start e < time_distance start n")
    case True
    from Cons.IH[of e] obtain r where
      r: "nearest_loop start es (Some (time_distance start e)) (Some e) = Some r"
      and c: "(r = e \<and> (\<forall>x\<in>set es. time_distance start e \<le> time_distance start x)) \<or>
        (first_min start es r \<and> time_distance start r < time_distance start e)"
      by blast
    from True r have res:
      "nearest_loop start (e # es) (Some (time_distance start n)) (Some n) = Some r"
      by (simp add: time_distance_def Let_def)
    from c have "first_min start (e # es) r \<and> time_distance start r < time_distance start n"
    proof
      assume "r = e \<and> (\<forall>x\<in>set es. time_distance start e \<le> time_distance start x)"
      with True show ?thesis by (simp add: first_min_here)
    next
      assume "first_min start es r \<and> time_distance start r < time_distance start e"
      with True show ?thesis by (simp add: first_min_later)
    qed
    with res show ?thesis by simp
  next
    case False
    from Cons.IH[of n] obtain r where
      r: "nearest_loop start es (Some (time_distance start n)) (Some n) = Some r"
      and c: "(r = n \<and> (\<forall>x\<in>set es. time_distance start n \<le> time_distance start x)) \<or>
        (first_min start es r \<and> time_distance start r < time_distance start n)"
      by blast
    from False r have res:
      "nearest_loop start (e # es) (Some (time_distance start n)) (Some n) = Some r"
      by (simp add: time_distance_def Let_def)
    from c have "(r = n \<and> (\<forall>x\<in>set (e # es). time_distance start n \<le> time_distance start x)) \<or>
        (first_min start (e # es) r \<and> time_distance start r < time_distance start n)"
    proof
      assume "r = n \<and> (\<forall>x\<in>set es. time_distance start n \<le> time_distance start x)"
      with False show ?thesis by simp
    next
      assume a: "first_min start es r \<and> time_distance start r < time_distance start n"
      with False have "time_distance start r < time_distance start e" by simp
      with a show ?thesis by (simp add: first_min_later)
    qed
    with res show ?thesis by simp
  qed
qed

lemma nearest_loop_first_min:
  assumes "es \<noteq> []"
  shows "\<exists>r. nearest_loop start es None None = Some r \<and> first_min start es r"
proof -
  from assms obtain e es' where es: "es = e # es'" by (cases es) auto
  have u: "nearest_loop start es None None
             = nearest_loop start es' (Some (time_distance start e)) (Some e)"
    by (simp add: es time_distance_def Let_def)
  from nearest_loop_acc[of start es' e] obtain r where
    r: "nearest_loop start es' (Some (time_distance start e)) (Some e) = Some r"
    and c: "(r = e \<and> (\<forall>x\<in>set es'. time_distance start e \<le> time_distance start x)) \<or>
        (first_min start es' r \<and> time_distance start r < time_distance start e)"
    by blast
  from c have "first_min start es r"
  proof
    assume "r = e \<and> (\<forall>x\<in>set es'. time_distance start e \<le> time_distance start x)"
    then show ?thesis by (simp add: es first_min_here)
  next
    assume "first_min start es' r \<and> time_distance start r < time_distance start e"
    then show ?thesis by (simp add: es first_min_later)
  qed
  with u r show ?thesis by simp
qed

lemma nearest_test_pulse_minimises:
  assumes has: "has_inserted_test_pulse self = Inr False"
    and cache: "attr_nearest_test_pulse self = None"
    and tpe: "test_pulse_entries nwb = (Inr entries, nwb')"
    and ok: "list_all entry_ok entries"
    and dev: "device_id self < 8"
  shows "(entries = [] \<longrightarrow> nearest_test_pulse self nwb = (Inr None, self, nwb')) \<and>
    (entries \<noteq> [] \<longrightarrow>
      (\<exists>pre e post tp. entries = pre @ e # post \<and>
         (\<forall>x\<in>set pre. time_distance (start_time self) e < time_distance (start_time self) x) \<and>
         (\<forall>x\<in>set post. time_distance (start_time self) e \<le> time_distance (start_time self) x) \<and>
         MiesTestPulse_init e self = Inr tp \<and> tp_start_time tp = timestamp e \<and>
         nearest_test_pulse self nwb =
           (Inr (Some (Standalone tp)), self\<lparr>attr_nearest_test_pulse := Some tp\<rparr>, nwb')))"
proof (cases "entries = []")
  case True
  with has cache tpe show ?thesis
    by (simp add: nearest_test_pulse_def find_nearest_test_pulse_def)
next
  case False
  from nearest_loop_first_min[OF False, of "start_time self"]
  obtain e where n: "nearest_loop (start_time self) entries None None = Some e"
    and fm: "first_min (start_time self) entries e"
    by blast
  from fm obtain pre post where d: "entries = pre @ e # post"
    and b: "\<forall>x\<in>set pre. time_distance (start_time self) e < time_distance (start_time self) x"
    and a: "\<forall>x\<in>set post. time_distance (start_time self) e \<le> time_distance (start_time self) x"
    unfolding first_min_def by blast
  from ok d have "entry_ok e" by simp
  from MiesTestPulse_init_ok[OF this dev] obtain tp where
    tp: "MiesTestPulse_init e self = Inr tp" and ts: "tp_start_time tp = timestamp e"
    by (elim exE conjE)
  from has cache tpe n tp have res:
    "nearest_test_pulse self nwb =
       (Inr (Some (Standalone tp)), self\<lparr>attr_nearest_test_pulse := Some tp\<rparr>, nwb')"
    by (simp add: nearest_test_pulse_def find_nearest_test_pulse_def)
  from d b a tp ts res have
    "\<exists>pre e post tp. entries = pre @ e # post \<and>
         (\<forall>x\<in>set pre. time_distance (start_time self) e < time_distance (start_time self) x) \<and>
         (\<forall>x\<in>set post. time_distance (start_time self) e \<le> time_distance (start_time self) x) \<and>
         MiesTestPulse_init e self = Inr tp \<and> tp_start_time tp = timestamp e \<and>
         nearest_test_pulse self nwb =
           (Inr (Some (Standalone tp)), self\<lparr>attr_nearest_test_pulse := Some tp\<rparr>, nwb')"
    by - (rule exI[of _ pre], rule exI[of _ e], rule exI[of _ post], rule exI[of _ tp],
          intro conjI, assumption+)
  with False show ?thesis by simp
qed

text \<open>
  C6. For a recording without an inserted test pulse (on its first access, the cache
  being empty), on a headstage 0 to 7, when the file's blocks are \<open>entries\<close>:
  \<open>nearest_test_pulse\<close> returns None when there is no block, without failing; otherwise
  it returns the test pulse of a block \<open>e\<close> whose distance in seconds to the start time is
  minimal over all blocks and strictly smaller than that of every block before it (the
  first-encountered block wins a tie); and a single block is returned whatever its
  distance.
\<close>

theorem nearest_test_pulse_first_minimum:
  assumes has: "has_inserted_test_pulse self = Inr False"
    and cache: "attr_nearest_test_pulse self = None"
    and tpe: "test_pulse_entries nwb = (Inr entries, nwb')"
    and ok: "list_all entry_ok entries"
    and dev: "device_id self < 8"
  shows "(entries = [] \<longrightarrow> nearest_test_pulse self nwb = (Inr None, self, nwb')) \<and>
    (entries \<noteq> [] \<longrightarrow>
      (\<exists>pre e post tp. entries = pre @ e # post \<and>
         (\<forall>x\<in>set entries. time_distance (start_time self) e \<le> time_distance (start_time self) x) \<and>
         (\<forall>x\<in>set pre. time_distance (start_time self) e < time_distance (start_time self) x) \<and>
         MiesTestPulse_init e self = Inr tp \<and> tp_start_time tp = timestamp e \<and>
         nearest_test_pulse self nwb =
           (Inr (Some (Standalone tp)), self\<lparr>attr_nearest_test_pulse := Some tp\<rparr>, nwb'))) \<and>
    (\<forall>e. entries = [e] \<longrightarrow>
      (\<exists>tp. MiesTestPulse_init e self = Inr tp \<and>
         nearest_test_pulse self nwb =
           (Inr (Some (Standalone tp)), self\<lparr>attr_nearest_test_pulse := Some tp\<rparr>, nwb')))"
proof -
  from nearest_test_pulse_minimises[OF has cache tpe ok dev]
  have 1: "entries = [] \<longrightarrow> nearest_test_pulse self nwb = (Inr None, self, nwb')"
    and m: "entries \<noteq> [] \<longrightarrow>
      (\<exists>pre e post tp. entries = pre @ e # post \<and>
         (\<forall>x\<in>set pre. time_distance (start_time self) e < time_distance (start_time self) x) \<and>
         (\<forall>x\<in>set post. time_distance (start_time self) e \<le> time_distance (start_time self) x) \<and>
         MiesTestPulse_init e self = Inr tp \<and> tp_start_time tp = timestamp e \<and>
         nearest_test_pulse self nwb =
           (Inr (Some (Standalone tp)), self\<lparr>attr_nearest_test_pulse := Some tp\<rparr>, nwb'))"
    by (rule conjunct1, rule conjunct2)
  have 2: "\<exists>pre e post tp. entries = pre @ e # post \<and>
         (\<forall>x\<in>set entries. time_distance (start_time self) e \<le> time_distance (start_time self) x) \<and>
         (\<forall>x\<in>set pre. time_distance (start_time self) e < time_distance (start_time self) x) \<and>
         MiesTestPulse_init e self = Inr tp \<and> tp_start_time tp = timestamp e \<and>
         nearest_test_pulse self nwb =
           (Inr (Some (Standalone tp)), self\<lparr>attr_nearest_test_pulse := Some tp\<rparr>, nwb')"
    if ne: "entries \<noteq> []"
  proof -
    from m ne obtain pre e post tp where d: "entries = pre @ e # post"
      and b: "\<forall>x\<in>set pre. time_distance (start_time self) e < time_distance (start_time self) x"
      and a: "\<forall>x\<in>set post. time_distance (start_time self) e \<le> time_distance (start_time self) x"
      and t: "MiesTestPulse_init e self = Inr tp" "tp_start_time tp = timestamp e"
        "nearest_test_pulse self nwb =
           (Inr (Some (Standalone tp)), self\<lparr>attr_nearest_test_pulse := Some tp\<rparr>, nwb')"
      by (elim impE exE conjE) assumption
    have g: "\<forall>x\<in>set entries. time_distance (start_time self) e \<le> time_distance (start_time self) x"
    proof
      fix x assume "x \<in> set entries"
      with d have "x \<in> set pre \<or> x = e \<or> x \<in> set post" by auto
      with a b show "time_distance (start_time self) e \<le> time_distance (start_time self) x"
        by (auto intro: less_imp_le)
    qed
    from d g b t show ?thesis
      by - (rule exI[of _ pre], rule exI[of _ e], rule exI[of _ post], rule exI[of _ tp],
            intro conjI, assumption+)
  qed
  have 3: "\<exists>tp. MiesTestPulse_init e self = Inr tp \<and>
         nearest_test_pulse self nwb =
           (Inr (Some (Standalone tp)), self\<lparr>attr_nearest_test_pulse := Some tp\<rparr>, nwb')"
    if one: "entries = [e]" for e
  proof -
    from one have "entries \<noteq> []" by simp
    from 2[OF this] obtain pre e' post tp where d: "entries = pre @ e' # post"
      and t: "MiesTestPulse_init e' self = Inr tp"
        "nearest_test_pulse self nwb =
           (Inr (Some (Standalone tp)), self\<lparr>attr_nearest_test_pulse := Some tp\<rparr>, nwb')"
      by (elim exE conjE)
    from d one have "e' = e" by (cases pre) simp_all
    with t show ?thesis by (intro exI[of _ tp]) simp
  qed
  from 1 2 3 show ?thesis by simp
qed

theorem nearest_test_pulse_first_minimum_witness:
  "MiesRecording_init [(5, replicate 9 no_pulse_meta)] 5 0 (Num (1 / 10))
     = Inr (no_pulse_recording 0) \<and>
   notebook (file_of tp_keys tie_table) = (Inr [], tie_nwb) \<and>
   has_inserted_test_pulse (no_pulse_recording 0) = Inr False \<and>
   test_pulse_entries tie_nwb
     = (Inr tie_entries, tie_nwb\<lparr>attr_tp_entries := Some (Some tie_entries)\<rparr>) \<and>
   time_distance (start_time (no_pulse_recording 0)) (example_entry 3000) = 600 \<and>
   time_distance (start_time (no_pulse_recording 0)) (example_entry 4200) = 600 \<and>
   (\<exists>pre e post tp. tie_entries = pre @ e # post \<and>
      (\<forall>x\<in>set tie_entries. time_distance (start_time (no_pulse_recording 0)) e
                                \<le> time_distance (start_time (no_pulse_recording 0)) x) \<and>
      (\<forall>x\<in>set pre. time_distance (start_time (no_pulse_recording 0)) e
                        < time_distance (start_time (no_pulse_recording 0)) x) \<and>
      MiesTestPulse_init e (no_pulse_recording 0) = Inr tp \<and>
      tp_start_time tp = timestamp e \<and>
      nearest_test_pulse (no_pulse_recording 0) tie_nwb =
        (Inr (Some (Standalone tp)),
         (no_pulse_recording 0)\<lparr>attr_nearest_test_pulse := Some tp\<rparr>,
         tie_nwb\<lparr>attr_tp_entries := Some (Some tie_entries)\<rparr>)) \<and>
   fst (nearest_test_pulse (no_pulse_recording 0) tie_nwb) = Inr (Some (Standalone vc_pulse)) \<and>
   tp_start_time vc_pulse = timestamp (example_entry 3000)"
proof -
  have i: "MiesRecording_init [(5, replicate 9 no_pulse_meta)] 5 0 (Num (1 / 10))
     = Inr (no_pulse_recording 0)" by code_simp
  have n: "notebook (file_of tp_keys tie_table) = (Inr [], tie_nwb)" by code_simp
  have h: "has_inserted_test_pulse (no_pulse_recording 0) = Inr False" by code_simp
  have c: "attr_nearest_test_pulse (no_pulse_recording 0) = None"
    by (simp add: no_pulse_recording_def example_recording_def)
  have t: "test_pulse_entries tie_nwb
     = (Inr tie_entries, tie_nwb\<lparr>attr_tp_entries := Some (Some tie_entries)\<rparr>)"
    by code_simp
  have k: "list_all entry_ok tie_entries" by code_simp
  have d: "device_id (no_pulse_recording 0) < 8" by (simp add: no_pulse_recording_def)
  have ne: "tie_entries \<noteq> []" by (simp add: tie_entries_def)
  have d1: "time_distance (start_time (no_pulse_recording 0)) (example_entry 3000) = 600"
    by code_simp
  have d2: "time_distance (start_time (no_pulse_recording 0)) (example_entry 4200) = 600"
    by code_simp
  have r: "fst (nearest_test_pulse (no_pulse_recording 0) tie_nwb)
             = Inr (Some (Standalone vc_pulse))"
    by code_simp
  have s: "tp_start_time vc_pulse = timestamp (example_entry 3000)"
    by (simp add: vc_pulse_def)
  from nearest_test_pulse_first_minimum[OF h c t k d] ne
  have "\<exists>pre e post tp. tie_entries = pre @ e # post \<and>
      (\<forall>x\<in>set tie_entries. time_distance (start_time (no_pulse_recording 0)) e
                                \<le> time_distance (start_time (no_pulse_recording 0)) x) \<and>
      (\<forall>x\<in>set pre. time_distance (start_time (no_pulse_recording 0)) e
                        < time_distance (start_time (no_pulse_recording 0)) x) \<and>
      MiesTestPulse_init e (no_pulse_recording 0) = Inr tp \<and>
      tp_start_time tp = timestamp e \<and>
      nearest_test_pulse (no_pulse_recording 0) tie_nwb =
        (Inr (Some (Standalone tp)),
         (no_pulse_recording 0)\<lparr>attr_nearest_test_pulse := Some tp\<rparr>,
         tie_nwb\<lparr>attr_tp_entries := Some (Some tie_entries)\<rparr>)"
    by simp
  with i n h t d1 d2 r s show ?thesis by (intro conjI)
qed

section \<open>Properties of \<open>test_pulse_entries\<close>\<close>

lemma nb_fields_lookup:
  assumes "f \<in> set nb_keys"
  shows "\<exists>i. dict_item (nb_fields nb_keys) f = Inr i \<and> i < length nb_keys"
proof -
  let ?z = "zip nb_keys [0..<length nb_keys]"
  have "map fst ?z = nb_keys" by (simp add: map_fst_zip)
  with assms have "f \<in> fst ` set (rev ?z)" by (metis set_map set_rev)
  then obtain i where i: "map_of (rev ?z) f = Some i"
    by (metis map_of_eq_None_iff not_Some_eq)
  then have "(f, i) \<in> set ?z" by (metis map_of_SomeD set_rev)
  then have "i \<in> set [0..<length nb_keys]" by (rule set_zip_rightD)
  then have "i < length nb_keys" by simp
  with i show ?thesis by (simp add: dict_item_def dict_get_def nb_fields_def)
qed

lemma entry_fields_ok:
  assumes "rect (length nb_keys) 9 rec" and "set fs \<subseteq> set nb_keys"
  shows "\<exists>d. entry_fields (Some (nb_fields nb_keys)) rec fs = Inr d \<and> map fst d = fs \<and>
             list_all (\<lambda>v. length v = 8) (map snd d)"
  using assms(2)
proof (induction fs)
  case Nil
  then show ?case by simp
next
  case (Cons f fs)
  from Cons.prems have "f \<in> set nb_keys" by simp
  from nb_fields_lookup[OF this] obtain i where
    i: "dict_item (nb_fields nb_keys) f = Inr i" and il: "i < length nb_keys"
    by (elim exE conjE)
  from assms(1) il have r: "item1 rec i = Inr (rec ! i)" and l: "length (rec ! i) = 9"
    by (simp_all add: rect_def item1_def list_all_length)
  from Cons.prems have "set fs \<subseteq> set nb_keys" by simp
  from Cons.IH[OF this] obtain d where
    d: "entry_fields (Some (nb_fields nb_keys)) rec fs = Inr d" "map fst d = fs"
      "list_all (\<lambda>v. length v = 8) (map snd d)"
    by (elim exE conjE)
  from i r d l show ?case by simp
qed

lemma entry_stim_ok:
  assumes "rect (length nb_keys) 9 rec" and "set fs \<subseteq> set nb_keys"
  shows "\<exists>d. entry_stim (Some (nb_fields nb_keys)) rec fs = Inr d"
  using assms(2)
proof (induction fs)
  case Nil
  then show ?case by simp
next
  case (Cons f fs)
  from Cons.prems have "f \<in> set nb_keys" by simp
  from nb_fields_lookup[OF this] obtain i where
    i: "dict_item (nb_fields nb_keys) f = Inr i" and il: "i < length nb_keys"
    by (elim exE conjE)
  from assms(1) il have r: "item2 rec i 8 = Inr (rec ! i ! 8)"
    by (simp add: rect_item2)
  from Cons.prems have "set fs \<subseteq> set nb_keys" by simp
  from Cons.IH[OF this] obtain d where
    d: "entry_stim (Some (nb_fields nb_keys)) rec fs = Inr d"
    by (elim exE)
  from i r d show ?case by simp
qed

lemma keys_at_least_two:
  assumes "set fields_tp \<subseteq> set nb_keys"
  shows "1 < length nb_keys"
proof -
  have "card (set fields_tp) = 4" by (simp add: fields_tp_def)
  moreover from assms have "card (set fields_tp) \<le> card (set nb_keys)"
    by (simp add: card_mono)
  moreover have "card (set nb_keys) \<le> length nb_keys" by (rule card_length)
  ultimately show ?thesis by linarith
qed

text \<open>A stored test-pulse row with a convertible timestamp gives an entry.\<close>

lemma tp_entry_of_ok:
  assumes r: "rect (length nb_keys) 9 rec"
    and f: "set fields_tp \<subseteq> set nb_keys" and s: "set stim_fields \<subseteq> set nb_keys"
    and t: "igorpro_date (rec ! 1 ! 0) = Inr d"
  shows "\<exists>e. tp_entry_of (Some (nb_fields nb_keys)) rec = Inr e \<and> entry_ok e"
proof -
  from keys_at_least_two[OF f] r have ts: "item2 rec 1 0 = Inr (rec ! 1 ! 0)"
    by (simp add: rect_item2)
  from entry_fields_ok[OF r f] obtain fd where
    fd: "entry_fields (Some (nb_fields nb_keys)) rec fields_tp = Inr fd"
      "map fst fd = fields_tp" "list_all (\<lambda>v. length v = 8) (map snd fd)"
    by (elim exE conjE)
  from entry_stim_ok[OF r s] obtain sd where
    sd: "entry_stim (Some (nb_fields nb_keys)) rec stim_fields = Inr sd"
    by (elim exE)
  let ?e = "\<lparr>timestamp = d, tp_fields = fd, stim = sd\<rparr>"
  from ts t fd(1) sd have "tp_entry_of (Some (nb_fields nb_keys)) rec = Inr ?e"
    by (simp add: tp_entry_of_def)
  moreover from fd(2,3) have "entry_ok ?e" by (simp add: entry_ok_def)
  ultimately show ?thesis by (intro exI[of _ ?e] conjI)
qed

lemma tp_entries_loop_ok:
  assumes "list_all (\<lambda>r. \<exists>e. tp_entry_of keys r = Inr e \<and> entry_ok e) rows"
  shows "\<exists>es. tp_entries_loop keys rows acc = (None, acc @ es) \<and>
              length es = length rows \<and> list_all entry_ok es"
  using assms
proof (induction rows arbitrary: acc)
  case Nil
  show ?case by (rule exI[of _ "[]"]) simp
next
  case (Cons r rows)
  from Cons.prems obtain e where e: "tp_entry_of keys r = Inr e" "entry_ok e"
    by auto
  from Cons.prems have "list_all (\<lambda>r. \<exists>e. tp_entry_of keys r = Inr e \<and> entry_ok e) rows"
    by simp
  from Cons.IH[OF this, of "acc @ [e]"] obtain es where
    es: "tp_entries_loop keys rows (acc @ [e]) = (None, (acc @ [e]) @ es)"
      "length es = length rows" "list_all entry_ok es"
    by (elim exE conjE)
  show ?case
    by (rule exI[of _ "e # es"]) (use e es in simp)
qed

text \<open>The scan stores rows of the shape of the table.\<close>

lemma step_tp_rect:
  assumes st: "step nb_keys nb p st = Inr (p', st1)"
    and p: "p < length nb"
    and wf: "list_all (rect nf nc) nb"
    and inv: "list_all (rect nf nc) (tp_entries st)"
  shows "list_all (rect nf nc) (tp_entries st1)"
proof -
  from st obtain kind q where pr: "process nb p kind q st = Inr (p', st1)"
    by (auto simp: step_def split: sum.splits prod.splits)
  from wf p have rp: "rect nf nc (nb ! p)" by (simp add: list_all_length)
  show ?thesis
  proof (cases kind)
    case TPRecord
    with pr have i: "p + 1 < length nb"
      and e: "tp_entries st1 = tp_entries st @ [overlay (nb ! p) (nb ! (p + 1))]"
      by (auto simp: process_def item1_def split: if_splits)
    from wf i have "rect nf nc (nb ! (p + 1))" by (simp add: list_all_length)
    with rp have "rect nf nc (overlay (nb ! p) (nb ! (p + 1)))" by (rule overlay_rect)
    with inv e show ?thesis by simp
  next
    case SweepRecord
    with pr have "tp_entries st1 = tp_entries st"
      by (auto simp: process_def split: sum.splits option.splits)
    with inv show ?thesis by simp
  next
    case Ignored
    with pr have "tp_entries st1 = tp_entries st" by (auto simp: process_def)
    with inv show ?thesis by simp
  qed
qed

lemma scan_tp_rect:
  assumes "scan nb_keys nb p st = Inr st'"
    and "list_all (rect nf nc) nb"
    and "list_all (rect nf nc) (tp_entries st)"
  shows "list_all (rect nf nc) (tp_entries st')"
  using assms
proof (induction nb_keys nb p st rule: scan.induct)
  case (1 nb_keys nb p st)
  show ?case
  proof (cases "length nb \<le> p")
    case True
    with "1.prems" show ?thesis by (simp add: scan_end)
  next
    case False
    then have p: "p < length nb" by simp
    with "1.prems"(1) obtain p' st1 where s: "step nb_keys nb p st = Inr (p', st1)"
      and sc: "scan nb_keys nb p' st1 = Inr st'"
      by (cases "step nb_keys nb p st") (auto simp: scan_unfold)
    from step_tp_rect[OF s p "1.prems"(2) "1.prems"(3)]
    have "list_all (rect nf nc) (tp_entries st1)" .
    from "1.IH"[OF False s refl sc "1.prems"(2) this] show ?thesis .
  qed
qed

text \<open>What a successful first call of notebook() leaves in the object.\<close>

lemma notebook_first_call:
  assumes "notebook (MiesNwb_init h) = (Inr nbk, self1)"
  shows "\<exists>st. scan (numericalKeys h) (numericalValues h) 0 init_scan = Inr st \<and>
    attr_tp_notebook self1 = Some (tp_entries st) \<and>
    attr_notebook_keys self1 = Some (nb_fields (numericalKeys h)) \<and>
    attr_tp_entries self1 = Some None"
  using assms
  by (auto simp: notebook_def MiesNwb_init_def Let_def split: sum.splits)

text \<open>
  C9 (as amended). On a freshly constructed file object \<open>test_pulse_entries()\<close> raises
  AttributeError: the attributes it reads are created only inside \<open>notebook()\<close>. After one
  successful call of \<open>notebook()\<close> on a table of nine channels whose field list has the
  eight test-pulse field names, and whose stored test-pulse rows have a convertible time
  stamp, \<open>test_pulse_entries()\<close> succeeds with one entry for each stored row, and the
  result is memoized: a second call returns the same list and changes nothing.
\<close>

theorem test_pulse_entries_after_notebook:
  assumes nbk: "notebook (MiesNwb_init h) = (Inr nbk, self1)"
    and wf: "list_all (rect (length (numericalKeys h)) 9) (numericalValues h)"
    and f: "set fields_tp \<subseteq> set (numericalKeys h)"
    and s: "set stim_fields \<subseteq> set (numericalKeys h)"
    and rows: "attr_tp_notebook self1 = Some rows"
    and ts: "list_all (\<lambda>r. \<exists>d. igorpro_date (r ! 1 ! 0) = Inr d) rows"
  shows "test_pulse_entries (MiesNwb_init h) = (Inl AttributeError, MiesNwb_init h) \<and>
    (\<exists>es. length es = length rows \<and>
       test_pulse_entries self1 = (Inr es, self1\<lparr>attr_tp_entries := Some (Some es)\<rparr>) \<and>
       test_pulse_entries (self1\<lparr>attr_tp_entries := Some (Some es)\<rparr>)
         = (Inr es, self1\<lparr>attr_tp_entries := Some (Some es)\<rparr>))"
proof -
  have 1: "test_pulse_entries (MiesNwb_init h) = (Inl AttributeError, MiesNwb_init h)"
    by (simp add: test_pulse_entries_def MiesNwb_init_def)
  from notebook_first_call[OF nbk] obtain st where
    sc: "scan (numericalKeys h) (numericalValues h) 0 init_scan = Inr st"
    and a: "attr_tp_notebook self1 = Some (tp_entries st)"
    and k: "attr_notebook_keys self1 = Some (nb_fields (numericalKeys h))"
    and e: "attr_tp_entries self1 = Some None"
    by (elim exE conjE)
  from a rows have r: "rows = tp_entries st" by simp
  have "list_all (rect (length (numericalKeys h)) 9) (tp_entries init_scan)"
    by (simp add: init_scan_def)
  from scan_tp_rect[OF sc wf this] r
  have rr: "list_all (rect (length (numericalKeys h)) 9) rows" by simp
  have "list_all (\<lambda>r. \<exists>e. tp_entry_of (Some (nb_fields (numericalKeys h))) r = Inr e
                          \<and> entry_ok e) rows"
    unfolding list_all_iff
  proof
    fix x assume x: "x \<in> set rows"
    with rr have xr: "rect (length (numericalKeys h)) 9 x" by (simp add: list_all_iff)
    from ts x obtain d where "igorpro_date (x ! 1 ! 0) = Inr d" by (auto simp: list_all_iff)
    from tp_entry_of_ok[OF xr f s this]
    show "\<exists>e. tp_entry_of (Some (nb_fields (numericalKeys h))) x = Inr e \<and> entry_ok e" .
  qed
  from tp_entries_loop_ok[OF this, of "[]"] obtain es where
    l: "tp_entries_loop (Some (nb_fields (numericalKeys h))) rows [] = (None, es)"
    and n: "length es = length rows"
    by auto
  from rows k e l have 2:
    "test_pulse_entries self1 = (Inr es, self1\<lparr>attr_tp_entries := Some (Some es)\<rparr>)"
    by (simp add: test_pulse_entries_def)
  have 3: "test_pulse_entries (self1\<lparr>attr_tp_entries := Some (Some es)\<rparr>)
         = (Inr es, self1\<lparr>attr_tp_entries := Some (Some es)\<rparr>)"
    by (simp add: test_pulse_entries_def)
  from n 2 3 have "\<exists>es. length es = length rows \<and>
       test_pulse_entries self1 = (Inr es, self1\<lparr>attr_tp_entries := Some (Some es)\<rparr>) \<and>
       test_pulse_entries (self1\<lparr>attr_tp_entries := Some (Some es)\<rparr>)
         = (Inr es, self1\<lparr>attr_tp_entries := Some (Some es)\<rparr>)"
    by (intro exI[of _ es] conjI)
  with 1 show ?thesis by (rule conjI)
qed

theorem test_pulse_entries_after_notebook_witness:
  "notebook (file_of tp_keys tie_table) = (Inr [], tie_nwb) \<and>
   test_pulse_entries (file_of tp_keys tie_table)
     = (Inl AttributeError, file_of tp_keys tie_table) \<and>
   test_pulse_entries tie_nwb
     = (Inr tie_entries, tie_nwb\<lparr>attr_tp_entries := Some (Some tie_entries)\<rparr>) \<and>
   test_pulse_entries (tie_nwb\<lparr>attr_tp_entries := Some (Some tie_entries)\<rparr>)
     = (Inr tie_entries, tie_nwb\<lparr>attr_tp_entries := Some (Some tie_entries)\<rparr>)"
proof -
  let ?h = "\<lparr>numericalKeys = tp_keys, numericalValues = tie_table\<rparr>"
  have f: "file_of tp_keys tie_table = MiesNwb_init ?h" by (simp add: file_of_def)
  have n: "notebook (MiesNwb_init ?h) = (Inr [], tie_nwb)"
    unfolding f[symmetric] by code_simp
  have wf: "list_all (rect (length (numericalKeys ?h)) 9) (numericalValues ?h)"
    by code_simp
  have fs: "set fields_tp \<subseteq> set (numericalKeys ?h)"
    by (simp add: fields_tp_def tp_keys_def)
  have ss: "set stim_fields \<subseteq> set (numericalKeys ?h)"
    by (simp add: stim_fields_def tp_keys_def)
  have rows: "attr_tp_notebook tie_nwb = Some [tpf_ab 3000, tpf_ab 4200]"
    by (simp add: tie_nwb_def)
  have i1: "igorpro_date (tpf_ab 3000 ! 1 ! 0) = Inr (datetime_ymd 1904 1 1 + 3000000000)"
    by code_simp
  have i2: "igorpro_date (tpf_ab 4200 ! 1 ! 0) = Inr (datetime_ymd 1904 1 1 + 4200000000)"
    by code_simp
  have ts: "list_all (\<lambda>r. \<exists>d. igorpro_date (r ! 1 ! 0) = Inr d) [tpf_ab 3000, tpf_ab 4200]"
    using i1 i2 by simp
  have t: "test_pulse_entries tie_nwb
     = (Inr tie_entries, tie_nwb\<lparr>attr_tp_entries := Some (Some tie_entries)\<rparr>)"
    by code_simp
  from test_pulse_entries_after_notebook[OF n wf fs ss rows ts]
  have a: "test_pulse_entries (MiesNwb_init ?h) = (Inl AttributeError, MiesNwb_init ?h)"
    and "\<exists>es. length es = length [tpf_ab 3000, tpf_ab 4200] \<and>
       test_pulse_entries tie_nwb = (Inr es, tie_nwb\<lparr>attr_tp_entries := Some (Some es)\<rparr>) \<and>
       test_pulse_entries (tie_nwb\<lparr>attr_tp_entries := Some (Some es)\<rparr>)
         = (Inr es, tie_nwb\<lparr>attr_tp_entries := Some (Some es)\<rparr>)"
    by (rule conjunct1, rule conjunct2)
  then obtain es where
    1: "test_pulse_entries tie_nwb = (Inr es, tie_nwb\<lparr>attr_tp_entries := Some (Some es)\<rparr>)"
    and 2: "test_pulse_entries (tie_nwb\<lparr>attr_tp_entries := Some (Some es)\<rparr>)
         = (Inr es, tie_nwb\<lparr>attr_tp_entries := Some (Some es)\<rparr>)"
    by (elim exE conjE)
  from 1 have "fst (test_pulse_entries tie_nwb) = Inr es" by (simp only: fst_conv)
  moreover from t have "fst (test_pulse_entries tie_nwb) = Inr tie_entries"
    by (simp only: fst_conv)
  ultimately have "es = tie_entries" by simp
  with 2 have m: "test_pulse_entries (tie_nwb\<lparr>attr_tp_entries := Some (Some tie_entries)\<rparr>)
     = (Inr tie_entries, tie_nwb\<lparr>attr_tp_entries := Some (Some tie_entries)\<rparr>)"
    by simp
  from n a t m show ?thesis unfolding f by (intro conjI)
qed

text \<open>
  C9 as stated fails in its second half: the table \<open>[tp_a, tp_b]\<close> has a test-pulse block
  but no field "TP Baseline Vm"; \<open>notebook()\<close> succeeds and \<open>test_pulse_entries()\<close> then
  raises KeyError.
\<close>

theorem test_pulse_entries_after_notebook_counterexample:
  "fst (notebook (file_of est_keys [tp_a, tp_b])) = Inr [] \<and>
   attr_tp_notebook (snd (notebook (file_of est_keys [tp_a, tp_b]))) = Some [tp_ab] \<and>
   fst (test_pulse_entries (snd (notebook (file_of est_keys [tp_a, tp_b])))) = Inl KeyError"
  by code_simp

end
